theory Spec2Isabelle
  imports Complex_Main "HOL-Library.AList" "HOL-Library.Log_Nat"
begin

section \<open>Data model of \<^verbatim>\<open>src/app.ts\<close>\<close>

text \<open>
  An \<^verbatim>\<open>ISODate\<close> is a string (\<^verbatim>\<open>YYYY-MM-DD\<close> when the program wrote it).
  \<^verbatim>\<open>YesNo = 'yes' | 'no' | null\<close>: \<open>None\<close> is \<^verbatim>\<open>null\<close>, the unanswered question.
\<close>

type_synonym ISODate = string

datatype Answer = yes | no

type_synonym YesNo = "Answer option"

datatype DietKey =
  nonKetoFruits | highCarbDairy | processedFoods | starchyVeggies | refinedCarbs

text \<open>The keys of \<^verbatim>\<open>DIET_RULES\<close>, in the order of the array (labels left out).\<close>

definition DIET_RULES :: "DietKey list" where
  "DIET_RULES = [nonKetoFruits, highCarbDairy, processedFoods, starchyVeggies, refinedCarbs]"

text \<open>\<^verbatim>\<open>DietChecks extends Record<DietKey, YesNo>\<close>: read by key (\<^verbatim>\<open>day.diet[rule.key]\<close>).\<close>

type_synonym DietChecks = "DietKey \<Rightarrow> YesNo"

text \<open>
  A JavaScript \<^verbatim>\<open>number\<close> as the weights use it: an IEEE 754 double. A finite double is
  the rational number it denotes (the sign of a zero is not kept); \<open>is_double\<close> below says
  which rationals are doubles, and every finite number of the program is one.
\<close>

datatype number = Finite rat | NaN | PosInfinity | NegInfinity

record DayRecord =
  date :: ISODate
  diet :: DietChecks
  dietException :: YesNo
  dessertPass :: YesNo
  mealPass :: YesNo
  weightMorning :: "number option"
  weightNight :: "number option"
  weightMorningMissed :: bool
  weightNightMissed :: bool
  weightLiftingDone :: YesNo
  waterFastDone :: YesNo

text \<open>
  The objects held in \<^verbatim>\<open>appState.days\<close> come from \<^verbatim>\<open>JSON.parse\<close> as well as from the
  program, so a property may be missing; \<^verbatim>\<open>getDay\<close> spreads them over the defaults for that
  reason. \<open>PartialDayRecord\<close> is \<^verbatim>\<open>Partial<DayRecord>\<close>: \<open>None\<close> is a property that is absent
  or \<^verbatim>\<open>undefined\<close> (for a weight the declared type has it already). A missed flag read as
  \<^verbatim>\<open>undefined\<close> is falsy, and the program only ever tests the flag's truth.
\<close>

record PartialDayRecord =
  p_date :: "ISODate option"
  p_diet :: "(DietKey \<rightharpoonup> YesNo) option"
  p_dietException :: "YesNo option"
  p_dessertPass :: "YesNo option"
  p_mealPass :: "YesNo option"
  p_weightMorning :: "number option"
  p_weightNight :: "number option"
  p_weightMorningMissed :: "bool option"
  p_weightNightMissed :: "bool option"
  p_weightLiftingDone :: "YesNo option"
  p_waterFastDone :: "YesNo option"

text \<open>\<^verbatim>\<open>WeekPlan\<close> and \<^verbatim>\<open>FastPlan\<close> are the same structural type \<^verbatim>\<open>{ dates: ISODate[] }\<close>.\<close>

record WeekPlan =
  dates :: "ISODate list"

type_synonym FastPlan = WeekPlan

text \<open>
  \<^verbatim>\<open>days\<close> is enumerated (\<^verbatim>\<open>Object.keys\<close>), so it is an association list in property order:
  a new key goes last, an existing key keeps its place (JavaScript lists keys that are
  array indices first; a date key has dashes and is none). The other objects are only
  read by key and are maps.
\<close>

record AppState =
  days :: "(ISODate \<times> PartialDayRecord) list"
  weekPlans :: "string \<rightharpoonup> WeekPlan"
  fastPlans :: "string \<rightharpoonup> FastPlan"
  trackingStart :: ISODate
  confirmedWeeks :: "string \<rightharpoonup> bool"
  confirmedMonths :: "string \<rightharpoonup> bool"

datatype BlockingOverlay =
  month string | week string | yesterday ISODate

definition emptyDiet :: DietChecks where
  "emptyDiet = (\<lambda>_. None)"

definition createEmptyDay :: "ISODate \<Rightarrow> DayRecord" where
  "createEmptyDay d =
     \<lparr> date = d, diet = emptyDiet, dietException = None, dessertPass = None,
       mealPass = None, weightMorning = None, weightNight = None,
       weightMorningMissed = False, weightNightMissed = False,
       weightLiftingDone = None, waterFastDone = None \<rparr>"

text \<open>A whole \<^verbatim>\<open>DayRecord\<close> seen as a stored object: every property present.\<close>

definition asStored :: "DayRecord \<Rightarrow> PartialDayRecord" where
  "asStored r =
     \<lparr> p_date = Some (date r), p_diet = Some (\<lambda>k. Some (diet r k)),
       p_dietException = Some (dietException r), p_dessertPass = Some (dessertPass r),
       p_mealPass = Some (mealPass r), p_weightMorning = weightMorning r,
       p_weightNight = weightNight r,
       p_weightMorningMissed = Some (weightMorningMissed r),
       p_weightNightMissed = Some (weightNightMissed r),
       p_weightLiftingDone = Some (weightLiftingDone r),
       p_waterFastDone = Some (waterFastDone r) \<rparr>"

section \<open>Dates\<close>

subsection \<open>The calendar behind \<^verbatim>\<open>Date\<close>\<close>

text \<open>
  A \<^verbatim>\<open>Date\<close> is used through its local calendar fields only, so a valid one is the number
  of its local day, counted from 1 January 1970; \<open>Invalid_Date\<close> is the \<^verbatim>\<open>Date\<close> whose time
  value is \<^verbatim>\<open>NaN\<close>. The limit of \<^verbatim>\<open>Date\<close> at 100 million days either side of 1970 is not
  modelled. Numbers of the date arithmetic are integers or \<^verbatim>\<open>NaN\<close> (\<open>None\<close>).

  \<open>civil_from_days\<close> gives year, month (1 to 12) and day of the proleptic Gregorian
  calendar; years run from 1 March inside the 400-year cycle, so that the leap day is
  the last day of a year, of a 4-year cycle and of a century.
\<close>

datatype Date = Invalid_Date | Local_Day int

definition civil_from_days :: "int \<Rightarrow> int \<times> int \<times> int" where
  "civil_from_days z =
     (let z0 = z + 719468;
          era = z0 div 146097;
          doe = z0 mod 146097;
          c = min 3 (doe div 36524);
          doc = doe - 36524 * c;
          q = doc div 1461;
          doq = doc mod 1461;
          a = min 3 (doq div 365);
          doy = doq - 365 * a;
          yoe = 100 * c + 4 * q + a;
          mp = (5 * doy + 2) div 153;
          d = doy - (153 * mp + 2) div 5 + 1;
          m = (if mp < 10 then mp + 3 else mp - 9);
          y = 400 * era + yoe + (if m \<le> 2 then 1 else 0)
      in (y, m, d))"

definition days_from_civil :: "int \<Rightarrow> int \<Rightarrow> int \<Rightarrow> int" where
  "days_from_civil y m d =
     (let y' = (if m \<le> 2 then y - 1 else y);
          era = y' div 400;
          yoe = y' mod 400;
          mp = (if m > 2 then m - 3 else m + 9);
          doy = (153 * mp + 2) div 5 + d - 1;
          doe = 365 * yoe + yoe div 4 - yoe div 100 + doy
      in 146097 * era + doe - 719468)"

text \<open>
  \<^verbatim>\<open>new Date(year, monthIndex, day)\<close>: a year from 0 to 99 means 1900 + year, months
  beyond 0..11 carry into the year, and the day counts on from the first of the month,
  below 1 and beyond the month's end as well. Any \<^verbatim>\<open>NaN\<close> argument gives Invalid Date.
\<close>

definition MakeDay :: "int \<Rightarrow> int \<Rightarrow> int \<Rightarrow> int" where
  "MakeDay y m d = days_from_civil (y + m div 12) (m mod 12 + 1) 1 + d - 1"

fun new_Date :: "int option \<Rightarrow> int option \<Rightarrow> int option \<Rightarrow> Date" where
  "new_Date (Some y) (Some m) (Some d) =
     Local_Day (MakeDay (if 0 \<le> y \<and> y \<le> 99 then 1900 + y else y) m d)"
| "new_Date _ _ _ = Invalid_Date"

fun getFullYear :: "Date \<Rightarrow> int option" where
  "getFullYear Invalid_Date = None"
| "getFullYear (Local_Day z) = Some (fst (civil_from_days z))"

text \<open>\<^verbatim>\<open>getMonth\<close> counts from 0.\<close>

fun getMonth :: "Date \<Rightarrow> int option" where
  "getMonth Invalid_Date = None"
| "getMonth (Local_Day z) = Some (fst (snd (civil_from_days z)) - 1)"

fun getDate :: "Date \<Rightarrow> int option" where
  "getDate Invalid_Date = None"
| "getDate (Local_Day z) = Some (snd (snd (civil_from_days z)))"

text \<open>\<^verbatim>\<open>getDay\<close> of a \<^verbatim>\<open>Date\<close>: the weekday, Sunday = 0; 1 January 1970 was a Thursday.\<close>

fun Date_getDay :: "Date \<Rightarrow> int option" where
  "Date_getDay Invalid_Date = None"
| "Date_getDay (Local_Day z) = Some ((z + 4) mod 7)"

text \<open>\<^verbatim>\<open>a < b\<close> on two dates compares the time values; with a \<^verbatim>\<open>NaN\<close> it is false.\<close>

fun Date_less :: "Date \<Rightarrow> Date \<Rightarrow> bool" where
  "Date_less (Local_Day a) (Local_Day b) = (a < b)"
| "Date_less _ _ = False"

subsection \<open>Numbers and strings\<close>

definition digit_char :: "nat \<Rightarrow> char" where
  "digit_char n = ''0123456789'' ! n"

fun String_nat :: "nat \<Rightarrow> string" where
  "String_nat n =
     (if n < 10 then [digit_char n] else String_nat (n div 10) @ [digit_char (n mod 10)])"

text \<open>\<^verbatim>\<open>String(value)\<close> of an integer or \<^verbatim>\<open>NaN\<close>, as a template literal prints it.\<close>

fun String_number :: "int option \<Rightarrow> string" where
  "String_number None = ''NaN''"
| "String_number (Some i) =
     (if i < 0 then CHR ''-'' # String_nat (nat (- i)) else String_nat (nat i))"

definition padStart :: "nat \<Rightarrow> char \<Rightarrow> string \<Rightarrow> string" where
  "padStart n c s = replicate (n - length s) c @ s"

definition pad :: "int option \<Rightarrow> string" where
  "pad v = padStart 2 (CHR ''0'') (String_number v)"

text \<open>The value of a decimal digit: its place in \<open>''0123456789''\<close>.\<close>

definition digit_val :: "char \<Rightarrow> nat option" where
  "digit_val c = map_of (zip ''0123456789'' [0..<10]) c"

fun digits_val :: "nat \<Rightarrow> string \<Rightarrow> nat option" where
  "digits_val acc [] = Some acc"
| "digits_val acc (c # cs) =
     (case digit_val c of None \<Rightarrow> None | Some d \<Rightarrow> digits_val (10 * acc + d) cs)"

text \<open>
  \<^verbatim>\<open>Number(s)\<close> on a piece of a date string: a run of decimal digits is its value and
  the empty string is 0. Every other string is \<^verbatim>\<open>NaN\<close> here; JavaScript reads a few more
  spellings as numbers (blanks around the digits, a plus sign, a fraction, an exponent,
  a radix prefix), which no key written by \<open>formatDate\<close> contains.
\<close>

definition Number :: "string \<Rightarrow> int option" where
  "Number s = map_option int (digits_val 0 s)"

text \<open>\<^verbatim>\<open>value.split('-')\<close>: the pieces between the dashes, one more than there are dashes.\<close>

fun split_dash :: "string \<Rightarrow> string list" where
  "split_dash [] = [[]]"
| "split_dash (c # cs) =
     (if c = CHR ''-'' then [] # split_dash cs
      else (case split_dash cs of [] \<Rightarrow> [[c]] | w # ws \<Rightarrow> (c # w) # ws))"

subsection \<open>The date helpers of the source\<close>

definition formatDate :: "Date \<Rightarrow> ISODate" where
  "formatDate d =
     String_number (getFullYear d) @ ''-'' @ pad (map_option (\<lambda>m. m + 1) (getMonth d))
       @ ''-'' @ pad (getDate d)"

text \<open>
  The array pattern \<^verbatim>\<open>[year, month, day]\<close> takes the first three pieces; a piece that is
  missing is \<^verbatim>\<open>undefined\<close>, which the arithmetic and the constructor turn into \<^verbatim>\<open>NaN\<close>.
\<close>

definition parseDate :: "ISODate \<Rightarrow> Date" where
  "parseDate v =
     (case map Number (split_dash v) of
        y # m # d # _ \<Rightarrow> new_Date y (map_option (\<lambda>m. m - 1) m) d
      | _ \<Rightarrow> Invalid_Date)"

definition addDays :: "Date \<Rightarrow> int option \<Rightarrow> Date" where
  "addDays d amount =
     new_Date (getFullYear d) (getMonth d)
       (case (getDate d, amount) of (Some a, Some b) \<Rightarrow> Some (a + b) | _ \<Rightarrow> None)"

definition getWeekStart :: "Date \<Rightarrow> Date" where
  "getWeekStart d =
     (let day = Date_getDay d; diff = map_option uminus day in addDays d diff)"

definition getWeekKey :: "Date \<Rightarrow> string" where
  "getWeekKey d = formatDate (getWeekStart d)"

definition getMonthKey :: "Date \<Rightarrow> string" where
  "getMonthKey d =
     String_number (getFullYear d) @ ''-'' @ pad (map_option (\<lambda>m. m + 1) (getMonth d))"

text \<open>\<^verbatim>\<open>Array.from({ length: days }, (_, index) => ...)\<close> for a whole number of days.\<close>

definition buildDateRange :: "Date \<Rightarrow> nat \<Rightarrow> ISODate list" where
  "buildDateRange endDate n =
     map (\<lambda>index. formatDate (addDays endDate (Some (int index - (int n - 1))))) [0..<n]"

section \<open>Loading the state\<close>

text \<open>\<open>or_default p v\<close>: the property \<open>p\<close> when it is there, else \<open>v\<close> (a spread over a
  default, and the operator \<^verbatim>\<open>??\<close>).\<close>

definition or_default :: "'a option \<Rightarrow> 'a \<Rightarrow> 'a" where
  "or_default p v = (case p of None \<Rightarrow> v | Some x \<Rightarrow> x)"

text \<open>\<^verbatim>\<open>formatDate(new Date())\<close> reads the clock: the current date is the parameter \<open>now\<close>.\<close>

definition defaultState :: "Date \<Rightarrow> AppState" where
  "defaultState now =
     \<lparr> days = [], weekPlans = Map.empty, fastPlans = Map.empty,
       trackingStart = formatDate now, confirmedWeeks = Map.empty,
       confirmedMonths = Map.empty \<rparr>"

text \<open>\<^verbatim>\<open>Partial<AppState>\<close>, the type the source gives to the parsed value: \<open>None\<close> is a
  property that is absent, \<^verbatim>\<open>undefined\<close> or \<^verbatim>\<open>null\<close>.\<close>

record PartialAppState =
  pa_days :: "(ISODate \<times> PartialDayRecord) list option"
  pa_weekPlans :: "(string \<rightharpoonup> WeekPlan) option"
  pa_fastPlans :: "(string \<rightharpoonup> FastPlan) option"
  pa_trackingStart :: "ISODate option"
  pa_confirmedWeeks :: "(string \<rightharpoonup> bool) option"
  pa_confirmedMonths :: "(string \<rightharpoonup> bool) option"

text \<open>
  What \<^verbatim>\<open>localStorage.getItem\<close> and \<^verbatim>\<open>JSON.parse\<close> hand to \<open>loadState\<close>: \<open>NoValue\<close> when \<^verbatim>\<open>!raw\<close>
  (no entry, or the empty string), \<open>Throws\<close> when the \<^verbatim>\<open>try\<close> block throws (text that is
  not JSON, or the JSON value \<^verbatim>\<open>null\<close>, whose properties cannot be read), \<open>Parsed p\<close> when
  it runs through with the properties \<open>p\<close>.
\<close>

datatype Persisted = NoValue | Throws | Parsed PartialAppState

definition loadState :: "Date \<Rightarrow> Persisted \<Rightarrow> AppState" where
  "loadState now raw =
     (case raw of
        NoValue \<Rightarrow> defaultState now
      | Throws \<Rightarrow> defaultState now
      | Parsed parsed \<Rightarrow>
          \<lparr> days = or_default (pa_days parsed) [],
            weekPlans = or_default (pa_weekPlans parsed) Map.empty,
            fastPlans = or_default (pa_fastPlans parsed) Map.empty,
            trackingStart = or_default (pa_trackingStart parsed) (formatDate now),
            confirmedWeeks = or_default (pa_confirmedWeeks parsed) Map.empty,
            confirmedMonths = or_default (pa_confirmedMonths parsed) Map.empty \<rparr>)"

section \<open>Reading and writing days and plans\<close>

text \<open>\<^verbatim>\<open>{ ...createEmptyDay(date), ...stored, diet: { ...emptyDiet(), ...stored.diet } }\<close>\<close>

definition getDay :: "AppState \<Rightarrow> ISODate \<Rightarrow> DayRecord" where
  "getDay s d =
     (case map_of (days s) d of
        None \<Rightarrow> createEmptyDay d
      | Some stored \<Rightarrow>
          (let e = createEmptyDay d in
           \<lparr> date = or_default (p_date stored) (date e),
             diet = (\<lambda>k. or_default (or_default (p_diet stored) Map.empty k) (emptyDiet k)),
             dietException = or_default (p_dietException stored) (dietException e),
             dessertPass = or_default (p_dessertPass stored) (dessertPass e),
             mealPass = or_default (p_mealPass stored) (mealPass e),
             weightMorning =
               (case p_weightMorning stored of None \<Rightarrow> weightMorning e | Some v \<Rightarrow> Some v),
             weightNight =
               (case p_weightNight stored of None \<Rightarrow> weightNight e | Some v \<Rightarrow> Some v),
             weightMorningMissed =
               or_default (p_weightMorningMissed stored) (weightMorningMissed e),
             weightNightMissed =
               or_default (p_weightNightMissed stored) (weightNightMissed e),
             weightLiftingDone = or_default (p_weightLiftingDone stored) (weightLiftingDone e),
             waterFastDone = or_default (p_waterFastDone stored) (waterFastDone e) \<rparr>))"

text \<open>
  \<open>setState\<close> replaces the state and saves it; the new state is the result here. In
  \<open>updateDay\<close> the updater gets the stored object as it is (not \<open>getDay\<close>'s merge), or a
  fresh empty day.
\<close>

definition updateDay ::
    "ISODate \<Rightarrow> (PartialDayRecord \<Rightarrow> PartialDayRecord) \<Rightarrow> AppState \<Rightarrow> AppState" where
  "updateDay d updater s =
     (let current = or_default (map_of (days s) d) (asStored (createEmptyDay d));
          updated = updater current
      in s\<lparr> days := AList.update d updated (days s) \<rparr>)"

definition updateWeekPlan :: "string \<Rightarrow> ISODate list \<Rightarrow> AppState \<Rightarrow> AppState" where
  "updateWeekPlan weekKey ds s =
     s\<lparr> weekPlans := (weekPlans s)(weekKey \<mapsto> \<lparr> dates = ds \<rparr>),
        confirmedWeeks := (confirmedWeeks s)(weekKey \<mapsto> False) \<rparr>"

definition updateFastPlan :: "string \<Rightarrow> ISODate list \<Rightarrow> AppState \<Rightarrow> AppState" where
  "updateFastPlan monthKey ds s =
     s\<lparr> fastPlans := (fastPlans s)(monthKey \<mapsto> \<lparr> dates = ds \<rparr>),
        confirmedMonths := (confirmedMonths s)(monthKey \<mapsto> False) \<rparr>"

definition confirmWeekPlan :: "string \<Rightarrow> AppState \<Rightarrow> AppState" where
  "confirmWeekPlan weekKey s =
     s\<lparr> confirmedWeeks := (confirmedWeeks s)(weekKey \<mapsto> True) \<rparr>"

definition confirmMonthPlan :: "string \<Rightarrow> AppState \<Rightarrow> AppState" where
  "confirmMonthPlan monthKey s =
     s\<lparr> confirmedMonths := (confirmedMonths s)(monthKey \<mapsto> True) \<rparr>"

definition toggleYesNo :: "YesNo \<Rightarrow> Answer \<Rightarrow> YesNo" where
  "toggleYesNo v next = (if v = Some next then None else Some next)"

definition setDietValue :: "ISODate \<Rightarrow> DietKey \<Rightarrow> YesNo \<Rightarrow> AppState \<Rightarrow> AppState" where
  "setDietValue d key v =
     updateDay d (\<lambda>day. day\<lparr> p_diet := Some ((or_default (p_diet day) Map.empty)(key \<mapsto> v)) \<rparr>)"

text \<open>
  \<open>setDayValue\<close> takes any key of \<^verbatim>\<open>DayRecord\<close> but \<^verbatim>\<open>diet\<close> and \<^verbatim>\<open>date\<close>, and a value of type
  \<^verbatim>\<open>YesNo | number | undefined\<close>. \<open>DayValue\<close> is a key with a value of its field's type:
  the five answers and the two weights (no value of that type is a missed flag).
\<close>

datatype DayValue =
    dietException_value YesNo
  | dessertPass_value YesNo
  | mealPass_value YesNo
  | weightLiftingDone_value YesNo
  | waterFastDone_value YesNo
  | weightMorning_value "number option"
  | weightNight_value "number option"

fun assignDayValue :: "DayValue \<Rightarrow> PartialDayRecord \<Rightarrow> PartialDayRecord" where
  "assignDayValue (dietException_value v) day = day\<lparr> p_dietException := Some v \<rparr>"
| "assignDayValue (dessertPass_value v) day = day\<lparr> p_dessertPass := Some v \<rparr>"
| "assignDayValue (mealPass_value v) day = day\<lparr> p_mealPass := Some v \<rparr>"
| "assignDayValue (weightLiftingDone_value v) day = day\<lparr> p_weightLiftingDone := Some v \<rparr>"
| "assignDayValue (waterFastDone_value v) day = day\<lparr> p_waterFastDone := Some v \<rparr>"
| "assignDayValue (weightMorning_value v) day = day\<lparr> p_weightMorning := v \<rparr>"
| "assignDayValue (weightNight_value v) day = day\<lparr> p_weightNight := v \<rparr>"

definition setDayValue :: "ISODate \<Rightarrow> DayValue \<Rightarrow> AppState \<Rightarrow> AppState" where
  "setDayValue d kv = updateDay d (\<lambda>day. assignDayValue kv day)"

datatype WeightKey = weightMorning_key | weightNight_key

text \<open>The truth of a flag that may be \<^verbatim>\<open>undefined\<close>.\<close>

definition truthy :: "bool option \<Rightarrow> bool" where
  "truthy b = or_default b False"

text \<open>\<^verbatim>\<open>[missedKey]: value !== undefined ? false : day[missedKey]\<close>\<close>

fun setWeight :: "WeightKey \<Rightarrow> number option \<Rightarrow> PartialDayRecord \<Rightarrow> PartialDayRecord" where
  "setWeight weightMorning_key v day =
     day\<lparr> p_weightMorning := v,
          p_weightMorningMissed := (if v \<noteq> None then Some False else p_weightMorningMissed day) \<rparr>"
| "setWeight weightNight_key v day =
     day\<lparr> p_weightNight := v,
          p_weightNightMissed := (if v \<noteq> None then Some False else p_weightNightMissed day) \<rparr>"

definition setWeightValue ::
    "ISODate \<Rightarrow> WeightKey \<Rightarrow> number option \<Rightarrow> AppState \<Rightarrow> AppState" where
  "setWeightValue d key v = updateDay d (setWeight key v)"

fun toggleMissed :: "WeightKey \<Rightarrow> PartialDayRecord \<Rightarrow> PartialDayRecord" where
  "toggleMissed weightMorning_key day =
     (let nextMissed = \<not> truthy (p_weightMorningMissed day) in
      day\<lparr> p_weightMorningMissed := Some nextMissed,
           p_weightMorning := (if nextMissed then None else p_weightMorning day) \<rparr>)"
| "toggleMissed weightNight_key day =
     (let nextMissed = \<not> truthy (p_weightNightMissed day) in
      day\<lparr> p_weightNightMissed := Some nextMissed,
           p_weightNight := (if nextMissed then None else p_weightNight day) \<rparr>)"

definition toggleWeightMissed :: "ISODate \<Rightarrow> WeightKey \<Rightarrow> AppState \<Rightarrow> AppState" where
  "toggleWeightMissed d key = updateDay d (toggleMissed key)"

section \<open>Completeness of a day and of the plans\<close>

definition dietRulesAnswered :: "DayRecord \<Rightarrow> bool" where
  "dietRulesAnswered day = list_all (\<lambda>key. diet day key \<noteq> None) DIET_RULES"

definition dietRulesAllClear :: "DayRecord \<Rightarrow> bool" where
  "dietRulesAllClear day = list_all (\<lambda>key. diet day key = Some no) DIET_RULES"

definition dietRequirementSatisfied :: "DayRecord \<Rightarrow> bool" where
  "dietRequirementSatisfied day =
     (dietException day = Some yes \<or> dessertPass day = Some yes \<or> mealPass day = Some yes
      \<or> dietRulesAllClear day)"

definition isLiftingDay :: "AppState \<Rightarrow> ISODate \<Rightarrow> bool" where
  "isLiftingDay s d =
     (let weekKey = getWeekKey (parseDate d) in
      case weekPlans s weekKey of None \<Rightarrow> False | Some plan \<Rightarrow> d \<in> set (dates plan))"

definition isFastDay :: "AppState \<Rightarrow> ISODate \<Rightarrow> bool" where
  "isFastDay s d =
     (let monthKey = getMonthKey (parseDate d) in
      case fastPlans s monthKey of None \<Rightarrow> False | Some plan \<Rightarrow> d \<in> set (dates plan))"

text \<open>\<^verbatim>\<open>Number.isFinite\<close> of a weight that may be \<^verbatim>\<open>undefined\<close>.\<close>

fun Number_isFinite :: "number option \<Rightarrow> bool" where
  "Number_isFinite (Some (Finite _)) = True"
| "Number_isFinite _ = False"

definition isDayComplete :: "AppState \<Rightarrow> DayRecord \<Rightarrow> ISODate \<Rightarrow> bool" where
  "isDayComplete s day d =
     (let dietExceptionSet = (dietException day \<noteq> None);
          dietNeedsRules = (dietException day \<noteq> Some yes);
          dietRulesComplete = (\<not> dietNeedsRules \<or> dietRulesAnswered day);
          passesAnswered =
            (\<not> dietNeedsRules \<or> (dessertPass day \<noteq> None \<and> mealPass day \<noteq> None));
          dietSectionComplete = (dietExceptionSet \<and> dietRulesComplete \<and> passesAnswered);
          weightMorningSet = (Number_isFinite (weightMorning day) \<or> weightMorningMissed day);
          weightNightSet = (Number_isFinite (weightNight day) \<or> weightNightMissed day);
          weightsComplete = (weightMorningSet \<and> weightNightSet);
          liftingRequired = isLiftingDay s d;
          liftingComplete = (\<not> liftingRequired \<or> weightLiftingDone day \<noteq> None);
          fastRequired = isFastDay s d;
          fastComplete = (\<not> fastRequired \<or> waterFastDone day \<noteq> None)
      in dietSectionComplete \<and> weightsComplete \<and> liftingComplete \<and> fastComplete)"

definition isWeekPlanComplete :: "AppState \<Rightarrow> string \<Rightarrow> bool" where
  "isWeekPlanComplete s weekKey =
     (case weekPlans s weekKey of None \<Rightarrow> False | Some plan \<Rightarrow> length (dates plan) = 3)"

definition isWeekPlanConfirmed :: "AppState \<Rightarrow> string \<Rightarrow> bool" where
  "isWeekPlanConfirmed s weekKey = truthy (confirmedWeeks s weekKey)"

definition isMonthPlanComplete :: "AppState \<Rightarrow> string \<Rightarrow> bool" where
  "isMonthPlanComplete s monthKey =
     (case fastPlans s monthKey of None \<Rightarrow> False | Some plan \<Rightarrow> length (dates plan) = 3)"

definition isMonthPlanConfirmed :: "AppState \<Rightarrow> string \<Rightarrow> bool" where
  "isMonthPlanConfirmed s monthKey = truthy (confirmedMonths s monthKey)"

section \<open>The blocking overlay\<close>

text \<open>\<^verbatim>\<open>new Date()\<close> is the parameter \<open>today\<close>; \<open>None\<close> is \<^verbatim>\<open>null\<close>, no overlay.\<close>

definition getBlockingOverlay :: "AppState \<Rightarrow> Date \<Rightarrow> BlockingOverlay option" where
  "getBlockingOverlay s today =
     (let currentMonthKey = getMonthKey today in
      if \<not> isMonthPlanComplete s currentMonthKey \<or> \<not> isMonthPlanConfirmed s currentMonthKey
      then Some (month currentMonthKey)
      else
        let currentWeekKey = getWeekKey today in
        if \<not> isWeekPlanComplete s currentWeekKey \<or> \<not> isWeekPlanConfirmed s currentWeekKey
        then Some (week currentWeekKey)
        else
          let yday = formatDate (addDays today (Some (- 1))) in
          if Date_less (parseDate yday) (parseDate (trackingStart s)) then None
          else
            let day = getDay s yday in
            if isDayComplete s day yday then None else Some (yesterday yday))"

section \<open>Pass conflicts\<close>

datatype PassKey = dessertPass_key | mealPass_key

fun passOf :: "PassKey \<Rightarrow> PartialDayRecord \<Rightarrow> YesNo option" where
  "passOf dessertPass_key day = p_dessertPass day"
| "passOf mealPass_key day = p_mealPass day"

text \<open>\<^verbatim>\<open>this.appState.days[dayKey]?.[key] === 'yes'\<close>\<close>

definition passUsed :: "AppState \<Rightarrow> PassKey \<Rightarrow> ISODate \<Rightarrow> bool" where
  "passUsed s key dayKey =
     (case map_of (days s) dayKey of
        None \<Rightarrow> False
      | Some day \<Rightarrow> passOf key day = Some (Some yes))"

text \<open>The \<^verbatim>\<open>for\<close> loop of \<open>getPassConflict\<close> over the keys still to visit.\<close>

fun passScan ::
    "AppState \<Rightarrow> ISODate \<Rightarrow> PassKey \<Rightarrow> string \<Rightarrow> ISODate list \<Rightarrow> ISODate option" where
  "passScan s d key weekKey [] = None"
| "passScan s d key weekKey (dayKey # rest) =
     (if dayKey = d then passScan s d key weekKey rest
      else if getWeekKey (parseDate dayKey) \<noteq> weekKey then passScan s d key weekKey rest
      else if passUsed s key dayKey then Some dayKey
      else passScan s d key weekKey rest)"

definition getPassConflict :: "AppState \<Rightarrow> ISODate \<Rightarrow> PassKey \<Rightarrow> ISODate option" where
  "getPassConflict s d key =
     (let weekKey = getWeekKey (parseDate d);
          planDates = map fst (days s)
      in passScan s d key weekKey planDates)"

section \<open>Weight averages\<close>

text \<open>
  Rounding to a double, to nearest and ties to even. A double is a whole multiple of
  its unit in the last place: \<open>2 ^ s / 2 ^ 1074\<close>, where \<open>s = 0\<close> below \<open>2 ^ 53 / 2 ^ 1074\<close>
  (the subnormal numbers and the first normal ones) and \<open>s\<close> grows by one with every
  doubling above, so that the multiple has at most 53 bits. A rounded value of
  \<open>2 ^ 1024\<close> or more is an infinity.
\<close>

definition round_half_even :: "rat \<Rightarrow> int" where
  "round_half_even q =
     (let f = \<lfloor>q\<rfloor>; r = q - of_int f
      in if r < 1 / 2 then f else if 1 / 2 < r then f + 1 else if even f then f else f + 1)"

definition ulp_shift :: "rat \<Rightarrow> nat" where
  "ulp_shift x = nat (bitlen \<lfloor>\<bar>x\<bar> * 2 ^ 1074\<rfloor> - 53)"

definition round_double :: "rat \<Rightarrow> number" where
  "round_double x =
     (let s = ulp_shift x;
          m = round_half_even (x * 2 ^ 1074 / 2 ^ s);
          v = of_int m * 2 ^ s / 2 ^ 1074
      in if 2 ^ 1024 \<le> \<bar>v\<bar> then (if 0 < x then PosInfinity else NegInfinity)
         else Finite v)"

definition is_double :: "rat \<Rightarrow> bool" where
  "is_double x =
     (of_int \<lfloor>x * 2 ^ 1074 / 2 ^ ulp_shift x\<rfloor> = x * 2 ^ 1074 / 2 ^ ulp_shift x
      \<and> \<bar>x\<bar> < 2 ^ 1024)"

text \<open>\<^verbatim>\<open>Number.MAX_VALUE\<close>, the largest double.\<close>

definition MAX_VALUE :: rat where
  "MAX_VALUE = 2 ^ 1024 - 2 ^ 971"

text \<open>
  \<^verbatim>\<open>+\<close> and \<^verbatim>\<open>/\<close> on numbers: the exact result, rounded to a double. Without the sign
  of a zero, a quotient by zero takes its sign from the dividend alone; the program
  divides by 2 and by a length of 1 or more.
\<close>

fun num_add :: "number \<Rightarrow> number \<Rightarrow> number" where
  "num_add (Finite a) (Finite b) = round_double (a + b)"
| "num_add NaN _ = NaN"
| "num_add _ NaN = NaN"
| "num_add PosInfinity NegInfinity = NaN"
| "num_add NegInfinity PosInfinity = NaN"
| "num_add PosInfinity _ = PosInfinity"
| "num_add _ PosInfinity = PosInfinity"
| "num_add NegInfinity _ = NegInfinity"
| "num_add _ NegInfinity = NegInfinity"

fun num_div :: "number \<Rightarrow> number \<Rightarrow> number" where
  "num_div (Finite a) (Finite b) =
     (if b \<noteq> 0 then round_double (a / b)
      else if a = 0 then NaN else if 0 < a then PosInfinity else NegInfinity)"
| "num_div NaN _ = NaN"
| "num_div _ NaN = NaN"
| "num_div (Finite a) _ = Finite 0"
| "num_div PosInfinity (Finite b) = (if 0 \<le> b then PosInfinity else NegInfinity)"
| "num_div NegInfinity (Finite b) = (if 0 \<le> b then NegInfinity else PosInfinity)"
| "num_div _ _ = NaN"

definition getDailyAverage :: "DayRecord \<Rightarrow> number option" where
  "getDailyAverage day =
     (let morning = weightMorning day;
          night = weightNight day
      in if Number_isFinite morning \<and> Number_isFinite night
         then Some (num_div (num_add (or_default morning (Finite 0))
                                     (or_default night (Finite 0))) (Finite 2))
         else if Number_isFinite morning then morning
         else if Number_isFinite night then night
         else None)"

text \<open>
  The filter keeps the finite averages and narrows them to \<^verbatim>\<open>number\<close>;
  \<^verbatim>\<open>reduce((sum, value) => sum + value, 0)\<close> is a left fold from 0.
\<close>

definition getRollingAverage :: "AppState \<Rightarrow> ISODate \<Rightarrow> nat \<Rightarrow> number option" where
  "getRollingAverage s currentDate windowSize =
     (let endDate = parseDate currentDate;
          range = buildDateRange endDate windowSize;
          values = map the (filter Number_isFinite
                     (map (\<lambda>d. getDailyAverage (getDay s d)) range))
      in if values = [] then None
         else Some (num_div (foldl num_add (Finite 0) values)
                            (Finite (of_nat (length values)))))"

section \<open>The mutations the interface performs\<close>

text \<open>
  One constructor for each handler of the rendered page that changes the state: the
  diet-rule buttons (\<open>setDietValue\<close>), the five yes/no questions (\<open>setDayValue\<close>, each
  call with one of the answer fields), the weight inputs and their missed buttons, the
  two planners and the two confirm buttons.
\<close>

datatype YesNoField =
  dietException_field | dessertPass_field | mealPass_field
  | weightLiftingDone_field | waterFastDone_field

fun yesNoValue :: "YesNoField \<Rightarrow> YesNo \<Rightarrow> DayValue" where
  "yesNoValue dietException_field v = dietException_value v"
| "yesNoValue dessertPass_field v = dessertPass_value v"
| "yesNoValue mealPass_field v = mealPass_value v"
| "yesNoValue weightLiftingDone_field v = weightLiftingDone_value v"
| "yesNoValue waterFastDone_field v = waterFastDone_value v"

datatype Mutation =
    SetDietValue ISODate DietKey YesNo
  | SetDayValue ISODate YesNoField YesNo
  | SetWeightValue ISODate WeightKey "number option"
  | ToggleWeightMissed ISODate WeightKey
  | UpdateWeekPlan string "ISODate list"
  | UpdateFastPlan string "ISODate list"
  | ConfirmWeekPlan string
  | ConfirmMonthPlan string

fun perform :: "Mutation \<Rightarrow> AppState \<Rightarrow> AppState" where
  "perform (SetDietValue d key v) s = setDietValue d key v s"
| "perform (SetDayValue d f v) s = setDayValue d (yesNoValue f v) s"
| "perform (SetWeightValue d key v) s = setWeightValue d key v s"
| "perform (ToggleWeightMissed d key) s = toggleWeightMissed d key s"
| "perform (UpdateWeekPlan weekKey ds) s = updateWeekPlan weekKey ds s"
| "perform (UpdateFastPlan monthKey ds) s = updateFastPlan monthKey ds s"
| "perform (ConfirmWeekPlan weekKey) s = confirmWeekPlan weekKey s"
| "perform (ConfirmMonthPlan monthKey) s = confirmMonthPlan monthKey s"

section \<open>Predicates of the properties\<close>

text \<open>
  The exclusion of a weight and its missed flag, on a whole \<^verbatim>\<open>DayRecord\<close>, on a stored
  object and on every stored object of a state; \<open>weightOf\<close> and \<open>missedOf\<close> read
  \<^verbatim>\<open>day[key]\<close> and \<^verbatim>\<open>day[missedKey]\<close>.
\<close>

definition weightExclusive :: "DayRecord \<Rightarrow> bool" where
  "weightExclusive day =
     (\<not> (weightMorning day \<noteq> None \<and> weightMorningMissed day)
      \<and> \<not> (weightNight day \<noteq> None \<and> weightNightMissed day))"

definition storedExclusive :: "PartialDayRecord \<Rightarrow> bool" where
  "storedExclusive day =
     (\<not> (p_weightMorning day \<noteq> None \<and> truthy (p_weightMorningMissed day))
      \<and> \<not> (p_weightNight day \<noteq> None \<and> truthy (p_weightNightMissed day)))"

definition allExclusive :: "AppState \<Rightarrow> bool" where
  "allExclusive s = list_all (\<lambda>entry. storedExclusive (snd entry)) (days s)"

fun weightOf :: "WeightKey \<Rightarrow> DayRecord \<Rightarrow> number option" where
  "weightOf weightMorning_key day = weightMorning day"
| "weightOf weightNight_key day = weightNight day"

fun missedOf :: "WeightKey \<Rightarrow> DayRecord \<Rightarrow> bool" where
  "missedOf weightMorning_key day = weightMorningMissed day"
| "missedOf weightNight_key day = weightNightMissed day"

text \<open>
  Two date strings lie in the same calendar week when the program gives them the same
  week key.
\<close>

definition sameWeek :: "ISODate \<Rightarrow> ISODate \<Rightarrow> bool" where
  "sameWeek a b = (getWeekKey (parseDate a) = getWeekKey (parseDate b))"

text \<open>
  The rolling average in the words of the specification: \<open>dayAverage s z\<close> is the daily
  average of calendar day \<open>z\<close> (a day number), \<open>finiteValues\<close> keeps the averages that are
  finite, and \<open>doubleMean\<close> is none for no value and otherwise the values added one by one
  from 0 and divided by their count, each step rounded to a double.
\<close>

definition dayAverage :: "AppState \<Rightarrow> int \<Rightarrow> number option" where
  "dayAverage s z = getDailyAverage (getDay s (formatDate (Local_Day z)))"

fun finiteValues :: "number option list \<Rightarrow> rat list" where
  "finiteValues [] = []"
| "finiteValues (Some (Finite r) # vs) = r # finiteValues vs"
| "finiteValues (_ # vs) = finiteValues vs"

text \<open>The sums a left fold passes through: \<open>acc\<close>, then \<open>acc\<close> with one more value each.\<close>

fun partialSums :: "rat \<Rightarrow> rat list \<Rightarrow> rat list" where
  "partialSums acc [] = [acc]"
| "partialSums acc (r # rs) = acc # partialSums (acc + r) rs"

definition doubleMean :: "rat list \<Rightarrow> number option" where
  "doubleMean rs =
     (if rs = [] then None
      else Some (num_div (foldl num_add (Finite 0) (map Finite rs))
                   (Finite (of_nat (length rs)))))"

section \<open>Example values\<close>

text \<open>
  \<open>emptyObject\<close> is \<^verbatim>\<open>{}\<close>. \<open>exampleState\<close> holds three stored days, the lifting plan of
  the week of Sunday 9 June 2024 and the fast plan of June 2024, both confirmed; day
  19884 is Monday 10 June 2024. \<open>overflowState\<close> has one day with both weights at
  \<^verbatim>\<open>Number.MAX_VALUE\<close>, \<open>thirdsState\<close> three days with the weights 100, 101 and 101.
  \<open>examplePersisted\<close> is a stored value with \<^verbatim>\<open>days\<close> and no \<^verbatim>\<open>trackingStart\<close>.
\<close>

definition emptyObject :: PartialDayRecord where
  "emptyObject =
     \<lparr> p_date = None, p_diet = None, p_dietException = None, p_dessertPass = None,
       p_mealPass = None, p_weightMorning = None, p_weightNight = None,
       p_weightMorningMissed = None, p_weightNightMissed = None,
       p_weightLiftingDone = None, p_waterFastDone = None \<rparr>"

definition exampleState :: AppState where
  "exampleState =
     \<lparr> days =
         [(''2024-06-09'', emptyObject\<lparr> p_dietException := Some (Some yes),
              p_weightMorning := Some (Finite (301 / 2)), p_weightNightMissed := Some True \<rparr>),
          (''2024-06-11'', emptyObject\<lparr> p_diet := Some [nonKetoFruits \<mapsto> Some no],
              p_dessertPass := Some (Some yes) \<rparr>),
          (''2024-06-16'', emptyObject\<lparr> p_dessertPass := Some (Some yes) \<rparr>)],
       weekPlans = [''2024-06-09'' \<mapsto> \<lparr> dates = [''2024-06-10'', ''2024-06-12'', ''2024-06-14''] \<rparr>],
       fastPlans = [''2024-06'' \<mapsto> \<lparr> dates = [''2024-06-20'', ''2024-06-21'', ''2024-06-22''] \<rparr>],
       trackingStart = ''2024-06-01'',
       confirmedWeeks = [''2024-06-09'' \<mapsto> True],
       confirmedMonths = [''2024-06'' \<mapsto> True] \<rparr>"

definition overflowState :: AppState where
  "overflowState =
     exampleState\<lparr> days :=
       [(''2024-06-09'', emptyObject\<lparr> p_weightMorning := Some (Finite MAX_VALUE),
            p_weightNight := Some (Finite MAX_VALUE) \<rparr>)] \<rparr>"

definition thirdsState :: AppState where
  "thirdsState =
     exampleState\<lparr> days :=
       [(''2024-06-09'', emptyObject\<lparr> p_weightMorning := Some (Finite 100) \<rparr>),
        (''2024-06-10'', emptyObject\<lparr> p_weightMorning := Some (Finite 101) \<rparr>),
        (''2024-06-11'', emptyObject\<lparr> p_weightNight := Some (Finite 101) \<rparr>)] \<rparr>"

definition examplePersisted :: PartialAppState where
  "examplePersisted =
     \<lparr> pa_days = Some [(''2024-06-09'', emptyObject\<lparr> p_dessertPass := Some (Some yes) \<rparr>)],
       pa_weekPlans = None, pa_fastPlans = None, pa_trackingStart = None,
       pa_confirmedWeeks = None, pa_confirmedMonths = None \<rparr>"

section \<open>Properties\<close>

declare String_nat.simps [simp del]

subsection \<open>The calendar\<close>

text \<open>
  The two conversions agree: the civil date of a day number has a month from 1 to 12
  and a day from 1 to 31, and \<open>days_from_civil\<close> takes it back to the day number. So
  \<open>addDays\<close> adds whole calendar days (for a date outside the years 0 to 99, which the
  \<^verbatim>\<open>Date\<close> constructor reads as 1900 to 1999), and \<open>parseDate\<close> reads back what
  \<open>formatDate\<close> wrote (from the year 100 on).
\<close>

lemma century_split:
  fixes doe :: int
  assumes "0 \<le> doe" "doe < 146097"
  defines "c \<equiv> min 3 (doe div 36524)"
  shows "0 \<le> c \<and> c \<le> 3 \<and> 0 \<le> doe - 36524 * c \<and> doe - 36524 * c \<le> 36524"
  using assms by (simp add: min_def) linarith

lemma cycle_split:
  fixes doc :: int
  assumes "0 \<le> doc" "doc \<le> 36524"
  shows "0 \<le> doc div 1461" "doc div 1461 \<le> 24" "0 \<le> doc mod 1461" "doc mod 1461 \<le> 1460"
  using assms by simp_all

lemma year_split:
  fixes doq :: int
  assumes "0 \<le> doq" "doq \<le> 1460"
  defines "a \<equiv> min 3 (doq div 365)"
  shows "0 \<le> a \<and> a \<le> 3 \<and> 0 \<le> doq - 365 * a \<and> doq - 365 * a \<le> 365"
  using assms by (simp add: min_def) linarith

lemma month_split:
  fixes doy :: int
  assumes "0 \<le> doy" "doy \<le> 365"
  defines "mp \<equiv> (5 * doy + 2) div 153"
  shows "0 \<le> mp \<and> mp \<le> 11 \<and> 1 \<le> doy - (153 * mp + 2) div 5 + 1
     \<and> doy - (153 * mp + 2) div 5 + 1 \<le> 31"
  using assms by linarith

lemma yoe_div4:
  fixes c q a :: int
  assumes "0 \<le> a" "a \<le> 3"
  shows "(100 * c + 4 * q + a) div 4 = 25 * c + q"
  using assms by linarith

lemma yoe_div100:
  fixes c q a :: int
  assumes "0 \<le> q" "q \<le> 24" "0 \<le> a" "a \<le> 3"
  shows "(100 * c + 4 * q + a) div 100 = c"
  using assms by linarith

lemma yoe_mod400:
  fixes yoe :: int
  assumes "0 \<le> yoe" "yoe < 400"
  shows "(400 * e + yoe) mod 400 = yoe" "(400 * e + yoe) div 400 = e"
proof -
  show "(400 * e + yoe) mod 400 = yoe"
    using assms by (simp only: mod_mult_self4 mod_pos_pos_trivial)
  show "(400 * e + yoe) div 400 = e"
    using assms by (simp only: div_mult_self4 div_pos_pos_trivial)
qed

lemma civil_from_days_props:
  assumes civ: "civil_from_days z = (y, m, d)"
  shows "1 \<le> m \<and> m \<le> 12 \<and> 1 \<le> d \<and> d \<le> 31 \<and> days_from_civil y m d = z
    \<and> 400 * ((z + 719468) div 146097) \<le> y"
proof -
  define era where "era = (z + 719468) div 146097"
  define doe where "doe = (z + 719468) mod 146097"
  define c where "c = min 3 (doe div 36524)"
  define doc where "doc = doe - 36524 * c"
  define q where "q = doc div 1461"
  define doq where "doq = doc mod 1461"
  define a where "a = min 3 (doq div 365)"
  define doy where "doy = doq - 365 * a"
  define yoe where "yoe = 100 * c + 4 * q + a"
  define mp where "mp = (5 * doy + 2) div 153"
  have z: "z = 146097 * era + doe - 719468"
    by (simp add: era_def doe_def)
  have doe: "0 \<le> doe" "doe < 146097"
    by (simp_all add: doe_def)
  from century_split [OF doe]
  have c: "0 \<le> c" "c \<le> 3" and doc: "0 \<le> doc" "doc \<le> 36524"
    by (simp_all add: c_def doc_def)
  from cycle_split [OF doc]
  have q: "0 \<le> q" "q \<le> 24" and doq: "0 \<le> doq" "doq \<le> 1460"
    by (simp_all add: q_def doq_def)
  have doc_eq: "doc = 1461 * q + doq"
    by (simp add: q_def doq_def)
  from year_split [OF doq]
  have a: "0 \<le> a" "a \<le> 3" and doy: "0 \<le> doy" "doy \<le> 365"
    by (simp_all add: a_def doy_def)
  from month_split [OF doy]
  have mp: "0 \<le> mp" "mp \<le> 11"
    and dd: "1 \<le> doy - (153 * mp + 2) div 5 + 1" "doy - (153 * mp + 2) div 5 + 1 \<le> 31"
    by (simp_all add: mp_def)
  have yoe: "0 \<le> yoe" "yoe < 400"
    using c q a by (simp_all add: yoe_def)
  have d4: "yoe div 4 = 25 * c + q"
    unfolding yoe_def using a by (rule yoe_div4)
  have d100: "yoe div 100 = c"
    unfolding yoe_def using q a by (rule yoe_div100)
  have doe_eq: "365 * yoe + yoe div 4 - yoe div 100 + doy = doe"
    unfolding d4 d100 by (simp add: yoe_def doy_def doc_eq [symmetric]) (simp add: doc_def)
  have "civil_from_days z =
      (400 * era + yoe + (if (if mp < 10 then mp + 3 else mp - 9) \<le> 2 then 1 else 0),
       (if mp < 10 then mp + 3 else mp - 9), doy - (153 * mp + 2) div 5 + 1)"
    unfolding civil_from_days_def Let_def mp_def yoe_def doy_def a_def doq_def q_def doc_def
      c_def doe_def era_def
    by (rule refl)
  with civ have "(y, m, d) =
      (400 * era + yoe + (if (if mp < 10 then mp + 3 else mp - 9) \<le> 2 then 1 else 0),
       (if mp < 10 then mp + 3 else mp - 9), doy - (153 * mp + 2) div 5 + 1)"
    by (rule subst)
  then have m_eq: "m = (if mp < 10 then mp + 3 else mp - 9)"
    and d_eq: "d = doy - (153 * mp + 2) div 5 + 1"
    and y_eq': "y = 400 * era + yoe + (if (if mp < 10 then mp + 3 else mp - 9) \<le> 2 then 1 else 0)"
    by (simp_all only: prod.inject)
  have y_eq: "y = 400 * era + yoe + (if m \<le> 2 then 1 else 0)"
    unfolding m_eq by (rule y_eq')
  have y': "(if m \<le> 2 then y - 1 else y) = 400 * era + yoe"
    by (simp add: y_eq)
  have mp': "(if m > 2 then m - 3 else m + 9) = mp"
    using mp by (simp add: m_eq)
  have "days_from_civil y m d = z"
    unfolding days_from_civil_def Let_def y' mp' yoe_mod400 [OF yoe]
    by (simp add: d_eq doe_eq z)
  moreover have "1 \<le> m" "m \<le> 12"
    using mp by (simp_all add: m_eq)
  moreover have "400 * ((z + 719468) div 146097) \<le> y"
    using yoe by (simp add: y_eq era_def)
  ultimately show ?thesis
    using dd by (simp add: d_eq)
qed

lemma days_from_civil_day: "days_from_civil y m d = days_from_civil y m 1 + d - 1"
  by (simp add: days_from_civil_def Let_def)

lemma MakeDay_civil:
  assumes "civil_from_days z = (y, m, d)"
  shows "MakeDay y (m - 1) (d + k) = z + k"
proof -
  from civil_from_days_props [OF assms]
  have m: "1 \<le> m" "m \<le> 12" and inv: "days_from_civil y m d = z"
    by simp_all
  from m have "(m - 1) div 12 = 0" "(m - 1) mod 12 + 1 = m"
    by simp_all
  then have "MakeDay y (m - 1) (d + k) = days_from_civil y m 1 + (d + k) - 1"
    by (simp add: MakeDay_def)
  also have "\<dots> = days_from_civil y m d + k"
    using days_from_civil_day [of y m d] by simp
  finally show ?thesis
    by (simp add: inv)
qed

lemma addDays_Local_Day:
  assumes "\<not> (0 \<le> fst (civil_from_days z) \<and> fst (civil_from_days z) \<le> 99)"
  shows "addDays (Local_Day z) (Some k) = Local_Day (z + k)"
proof -
  obtain y m d where civ: "civil_from_days z = (y, m, d)"
    by (cases "civil_from_days z") auto
  from assms civ have y: "(if 0 \<le> y \<and> y \<le> 99 then 1900 + y else y) = y"
    by simp
  have "addDays (Local_Day z) (Some k) = Local_Day (MakeDay y (m - 1) (d + k))"
    by (simp add: addDays_def civ y)
  with MakeDay_civil [OF civ, of k] show ?thesis
    by simp
qed

lemma year_from_400:
  assumes "- 573371 \<le> z"
  shows "400 \<le> fst (civil_from_days z)"
proof -
  obtain y m d where civ: "civil_from_days z = (y, m, d)"
    by (cases "civil_from_days z") auto
  from civil_from_days_props [OF civ]
  have "400 * ((z + 719468) div 146097) \<le> y"
    by simp
  moreover from assms have "1 \<le> (z + 719468) div 146097"
    by linarith
  ultimately show ?thesis
    by (simp add: civ)
qed

lemma digit_char_cases:
  assumes "n < 10"
  shows "digit_val (digit_char n) = Some n \<and> digit_char n \<noteq> CHR ''-''"
proof -
  from assms have "n \<in> {0, 1, 2, 3, 4, 5, 6, 7, 8, 9}"
    by auto
  then show ?thesis
    by (auto simp: digit_val_def digit_char_def upt_rec)
qed

lemma digits_val_snoc:
  "digits_val acc (xs @ [c]) =
     (case digits_val acc xs of
        None \<Rightarrow> None
      | Some v \<Rightarrow> (case digit_val c of None \<Rightarrow> None | Some k \<Rightarrow> Some (10 * v + k)))"
  by (induction xs arbitrary: acc) (auto split: option.splits)

lemma String_nat_digits:
  "digits_val 0 (String_nat n) = Some n \<and> CHR ''-'' \<notin> set (String_nat n)"
proof (induction n rule: String_nat.induct)
  case (1 n)
  show ?case
  proof (cases "n < 10")
    case True
    with digit_char_cases [of n] show ?thesis
      by (auto simp: String_nat.simps [of n])
  next
    case False
    have "n mod 10 < 10"
      by simp
    from digit_char_cases [OF this] "1.IH" [OF False] False show ?thesis
      by (auto simp: String_nat.simps [of n] digits_val_snoc)
  qed
qed

lemma digits_val_zeros: "digits_val 0 (replicate k (CHR ''0'') @ s) = digits_val 0 s"
  by (induction k) (simp_all add: digit_val_def upt_rec)

lemma Number_String_nat: "Number (String_nat n) = Some (int n)"
  by (simp add: Number_def String_nat_digits)

lemma pad_digits:
  assumes "0 \<le> v"
  shows "Number (pad (Some v)) = Some v \<and> CHR ''-'' \<notin> set (pad (Some v))"
  using assms String_nat_digits [of "nat v"]
  by (simp add: pad_def padStart_def Number_def digits_val_zeros)

lemma split_dash_nonempty: "split_dash s \<noteq> []"
  by (induction s) (auto split: list.splits)

lemma split_dash_plain: "CHR ''-'' \<notin> set xs \<Longrightarrow> split_dash xs = [xs]"
  by (induction xs) auto

lemma split_dash_append:
  "CHR ''-'' \<notin> set xs \<Longrightarrow> split_dash (xs @ CHR ''-'' # rest) = xs # split_dash rest"
  by (induction xs) auto

lemma formatDate_civil:
  assumes "civil_from_days z = (y, m, d)"
  shows "formatDate (Local_Day z) =
           String_number (Some y) @ ''-'' @ pad (Some m) @ ''-'' @ pad (Some d)"
  by (simp add: formatDate_def assms)

lemma parseDate_formatDate:
  assumes "100 \<le> fst (civil_from_days z)"
  shows "parseDate (formatDate (Local_Day z)) = Local_Day z"
proof -
  obtain y m d where civ: "civil_from_days z = (y, m, d)"
    by (cases "civil_from_days z") auto
  from assms civ have y: "100 \<le> y"
    by simp
  from civil_from_days_props [OF civ] have md: "0 \<le> m" "0 \<le> d"
    by simp_all
  from y have sy: "String_number (Some y) = String_nat (nat y)"
    by simp
  have pieces:
    "split_dash (formatDate (Local_Day z)) = [String_nat (nat y), pad (Some m), pad (Some d)]"
    unfolding formatDate_civil [OF civ] sy
    using String_nat_digits [of "nat y"] pad_digits [OF md(1)] pad_digits [OF md(2)]
    by (simp add: split_dash_append split_dash_plain)
  have "parseDate (formatDate (Local_Day z)) = new_Date (Some y) (Some (m - 1)) (Some d)"
    using y pad_digits [OF md(1)] pad_digits [OF md(2)]
    by (simp add: parseDate_def pieces Number_String_nat)
  also have "\<dots> = Local_Day (MakeDay y (m - 1) d)"
    using y by simp
  also have "\<dots> = Local_Day z"
    using MakeDay_civil [OF civ, of 0] by simp
  finally show ?thesis .
qed

lemma addDays_from_1970: "0 \<le> z \<Longrightarrow> addDays (Local_Day z) (Some k) = Local_Day (z + k)"
proof -
  assume "0 \<le> z"
  then have "400 \<le> fst (civil_from_days z)"
    by (simp add: year_from_400)
  then have "\<not> (0 \<le> fst (civil_from_days z) \<and> fst (civil_from_days z) \<le> 99)"
    by simp
  then show ?thesis
    by (rule addDays_Local_Day)
qed

lemma getWeekKey_from_1970:
  "0 \<le> z \<Longrightarrow> getWeekKey (Local_Day z) = formatDate (Local_Day (z - (z + 4) mod 7))"
  by (simp add: getWeekKey_def getWeekStart_def addDays_from_1970)

lemma getMonthKey_civil:
  "civil_from_days z = (y, m, d) \<Longrightarrow>
     getMonthKey (Local_Day z) = String_number (Some y) @ ''-'' @ pad (Some m)"
  by (simp add: getMonthKey_def)

text \<open>
  From 1970 on, two dates have the same week key exactly when they lie in the same week
  from Sunday to Saturday (day 0 is a Thursday).
\<close>

lemma formatDate_inject:
  assumes "0 \<le> a + 6" "0 \<le> b + 6" "formatDate (Local_Day a) = formatDate (Local_Day b)"
  shows "a = b"
proof -
  from assms(1) have "- 573371 \<le> a"
    by linarith
  then have ya: "100 \<le> fst (civil_from_days a)"
    using year_from_400 [of a] by linarith
  from assms(2) have "- 573371 \<le> b"
    by linarith
  then have yb: "100 \<le> fst (civil_from_days b)"
    using year_from_400 [of b] by linarith
  have "Local_Day a = parseDate (formatDate (Local_Day a))"
    using ya by (rule parseDate_formatDate [symmetric])
  also have "\<dots> = parseDate (formatDate (Local_Day b))"
    by (simp only: assms(3))
  also have "\<dots> = Local_Day b"
    using yb by (rule parseDate_formatDate)
  finally show ?thesis
    by (simp only: Date.inject)
qed

lemma week_start:
  fixes x :: int
  shows "x - (x + 4) mod 7 = 7 * ((x + 4) div 7) - 4"
  using minus_mult_div_eq_mod [of "x + 4" 7] by linarith

lemma sameWeek_calendar:
  assumes "parseDate a = Local_Day x" "parseDate b = Local_Day y" "0 \<le> x" "0 \<le> y"
  shows "sameWeek a b = ((x + 4) div 7 = (y + 4) div 7)"
proof -
  define sx where "sx = x - (x + 4) mod 7"
  define sy where "sy = y - (y + 4) mod 7"
  have kx: "getWeekKey (parseDate a) = formatDate (Local_Day sx)"
    unfolding assms(1) sx_def using assms(3) by (rule getWeekKey_from_1970)
  have ky: "getWeekKey (parseDate b) = formatDate (Local_Day sy)"
    unfolding assms(2) sy_def using assms(4) by (rule getWeekKey_from_1970)
  have sx: "sx = 7 * ((x + 4) div 7) - 4" and sy: "sy = 7 * ((y + 4) div 7) - 4"
    unfolding sx_def sy_def by (rule week_start)+
  have range: "0 \<le> sx + 6" "0 \<le> sy + 6"
    using assms(3,4) unfolding sx sy by linarith+
  have "(formatDate (Local_Day sx) = formatDate (Local_Day sy)) = (sx = sy)"
    using formatDate_inject [OF range] by blast
  also have "\<dots> = ((x + 4) div 7 = (y + 4) div 7)"
    unfolding sx sy by linarith
  finally show ?thesis
    by (simp only: sameWeek_def kx ky)
qed

subsection \<open>Dates of the example\<close>

lemma example_civil:
  "civil_from_days 19880 = (2024, 6, 6)"
  "civil_from_days 19881 = (2024, 6, 7)"
  "civil_from_days 19882 = (2024, 6, 8)"
  "civil_from_days 19883 = (2024, 6, 9)"
  "civil_from_days 19884 = (2024, 6, 10)"
  "civil_from_days 19885 = (2024, 6, 11)"
  "civil_from_days 19886 = (2024, 6, 12)"
  "civil_from_days 19890 = (2024, 6, 16)"
  unfolding civil_from_days_def Let_def by simp_all

lemma example_strings:
  "String_nat 2024 = ''2024''"
  "pad (Some 6) = ''06''" "pad (Some 7) = ''07''" "pad (Some 8) = ''08''" "pad (Some 9) = ''09''"
  "pad (Some 10) = ''10''" "pad (Some 11) = ''11''" "pad (Some 12) = ''12''"
  "pad (Some 16) = ''16''"
  by (simp_all add: pad_def padStart_def String_nat.simps digit_char_def)

lemma example_format:
  "formatDate (Local_Day 19880) = ''2024-06-06''"
  "formatDate (Local_Day 19881) = ''2024-06-07''"
  "formatDate (Local_Day 19882) = ''2024-06-08''"
  "formatDate (Local_Day 19883) = ''2024-06-09''"
  "formatDate (Local_Day 19884) = ''2024-06-10''"
  "formatDate (Local_Day 19885) = ''2024-06-11''"
  "formatDate (Local_Day 19886) = ''2024-06-12''"
  "formatDate (Local_Day 19890) = ''2024-06-16''"
  by (simp_all add: formatDate_civil [OF example_civil(1)] formatDate_civil [OF example_civil(2)]
        formatDate_civil [OF example_civil(3)] formatDate_civil [OF example_civil(4)]
        formatDate_civil [OF example_civil(5)] formatDate_civil [OF example_civil(6)]
        formatDate_civil [OF example_civil(7)] formatDate_civil [OF example_civil(8)]
        example_strings)

lemma example_parse:
  "parseDate ''2024-06-01'' = Local_Day 19875"
  "parseDate ''2024-06-09'' = Local_Day 19883"
  "parseDate ''2024-06-10'' = Local_Day 19884"
  "parseDate ''2024-06-11'' = Local_Day 19885"
  "parseDate ''2024-06-12'' = Local_Day 19886"
  "parseDate ''2024-06-13'' = Local_Day 19887"
  "parseDate ''2024-06-16'' = Local_Day 19890"
  by (simp_all add: parseDate_def Number_def digit_val_def upt_rec MakeDay_def
        days_from_civil_def)

lemma example_today:
  "getMonthKey (Local_Day 19884) = ''2024-06''"
  "getWeekKey (Local_Day 19884) = ''2024-06-09''"
  "formatDate (addDays (Local_Day 19884) (Some (- 1))) = ''2024-06-09''"
  by (simp_all add: getMonthKey_civil [OF example_civil(5)] getWeekKey_from_1970
        addDays_from_1970 example_format example_strings)

lemma example_weeks:
  "getWeekKey (parseDate ''2024-06-09'') = ''2024-06-09''"
  "getWeekKey (parseDate ''2024-06-10'') = ''2024-06-09''"
  "getWeekKey (parseDate ''2024-06-11'') = ''2024-06-09''"
  "getWeekKey (parseDate ''2024-06-13'') = ''2024-06-09''"
  "getWeekKey (parseDate ''2024-06-16'') = ''2024-06-16''"
  by (simp_all add: example_parse getWeekKey_from_1970 example_format)

lemma example_months:
  "getMonthKey (parseDate ''2024-06-09'') = ''2024-06''"
  "getMonthKey (parseDate ''2024-06-10'') = ''2024-06''"
  by (simp_all add: example_parse getMonthKey_civil [OF example_civil(4)]
        getMonthKey_civil [OF example_civil(5)] example_strings)

lemma example_upto: "[19880..19886] = [19880, 19881, 19882, 19883, 19884, 19885, 19886 :: int]"
  by (simp add: upto_rec1)

subsection \<open>The blocking overlay\<close>

text \<open>
  C1, as the code has it. \<open>getBlockingOverlay\<close> follows a strict priority. Unless the
  current month's plan is complete and confirmed, the result is the month overlay for
  that month. Otherwise, unless the current week's plan is complete and confirmed, it is
  the week overlay for that week. Otherwise an incomplete yesterday that is not before
  \<^verbatim>\<open>trackingStart\<close> gives the yesterday overlay. A week overlay is only the result when
  the month check passes, and a yesterday overlay or no overlay only when both pass.
\<close>

theorem getBlockingOverlay_priority:
  "(\<not> (isMonthPlanComplete s (getMonthKey today) \<and> isMonthPlanConfirmed s (getMonthKey today))
      \<longrightarrow> getBlockingOverlay s today = Some (month (getMonthKey today)))
   \<and> (isMonthPlanComplete s (getMonthKey today) \<and> isMonthPlanConfirmed s (getMonthKey today)
      \<and> \<not> (isWeekPlanComplete s (getWeekKey today) \<and> isWeekPlanConfirmed s (getWeekKey today))
      \<longrightarrow> getBlockingOverlay s today = Some (week (getWeekKey today)))
   \<and> (isMonthPlanComplete s (getMonthKey today) \<and> isMonthPlanConfirmed s (getMonthKey today)
      \<and> isWeekPlanComplete s (getWeekKey today) \<and> isWeekPlanConfirmed s (getWeekKey today)
      \<and> \<not> Date_less (parseDate (formatDate (addDays today (Some (- 1)))))
            (parseDate (trackingStart s))
      \<and> \<not> isDayComplete s (getDay s (formatDate (addDays today (Some (- 1)))))
            (formatDate (addDays today (Some (- 1))))
      \<longrightarrow> getBlockingOverlay s today
            = Some (yesterday (formatDate (addDays today (Some (- 1))))))
   \<and> (getBlockingOverlay s today = Some (week k)
      \<longrightarrow> isMonthPlanComplete s (getMonthKey today)
          \<and> isMonthPlanConfirmed s (getMonthKey today))
   \<and> (getBlockingOverlay s today = Some (yesterday k) \<or> getBlockingOverlay s today = None
      \<longrightarrow> isMonthPlanComplete s (getMonthKey today)
          \<and> isMonthPlanConfirmed s (getMonthKey today)
          \<and> isWeekPlanComplete s (getWeekKey today)
          \<and> isWeekPlanConfirmed s (getWeekKey today))"
  by (auto simp: getBlockingOverlay_def Let_def split: if_splits)

text \<open>
  C1 as stated fails: with both plans complete and confirmed and \<^verbatim>\<open>trackingStart\<close> on the
  current day, an incomplete yesterday gives no overlay.
\<close>

theorem getBlockingOverlay_exempt_yesterday:
  "isMonthPlanComplete (exampleState\<lparr> days := [], trackingStart := ''2024-06-10'' \<rparr>)
      (getMonthKey (Local_Day 19884))
   \<and> isMonthPlanConfirmed (exampleState\<lparr> days := [], trackingStart := ''2024-06-10'' \<rparr>)
      (getMonthKey (Local_Day 19884))
   \<and> isWeekPlanComplete (exampleState\<lparr> days := [], trackingStart := ''2024-06-10'' \<rparr>)
      (getWeekKey (Local_Day 19884))
   \<and> isWeekPlanConfirmed (exampleState\<lparr> days := [], trackingStart := ''2024-06-10'' \<rparr>)
      (getWeekKey (Local_Day 19884))
   \<and> formatDate (addDays (Local_Day 19884) (Some (- 1))) = ''2024-06-09''
   \<and> \<not> isDayComplete (exampleState\<lparr> days := [], trackingStart := ''2024-06-10'' \<rparr>)
        (getDay (exampleState\<lparr> days := [], trackingStart := ''2024-06-10'' \<rparr>) ''2024-06-09'')
        ''2024-06-09''
   \<and> getBlockingOverlay (exampleState\<lparr> days := [], trackingStart := ''2024-06-10'' \<rparr>)
        (Local_Day 19884) \<noteq> Some (yesterday ''2024-06-09'')
   \<and> getBlockingOverlay (exampleState\<lparr> days := [], trackingStart := ''2024-06-10'' \<rparr>)
        (Local_Day 19884) = None"
  by (simp add: getBlockingOverlay_def Let_def example_today example_parse
        isMonthPlanComplete_def isMonthPlanConfirmed_def isWeekPlanComplete_def
        isWeekPlanConfirmed_def exampleState_def truthy_def or_default_def
        isDayComplete_def getDay_def createEmptyDay_def)

theorem getBlockingOverlay_priority_witness:
  "getBlockingOverlay (exampleState\<lparr> days := [], weekPlans := Map.empty, fastPlans := Map.empty \<rparr>)
      (Local_Day 19884) = Some (month ''2024-06'')
   \<and> getBlockingOverlay (exampleState\<lparr> days := [], weekPlans := Map.empty \<rparr>) (Local_Day 19884)
      = Some (week ''2024-06-09'')
   \<and> getBlockingOverlay (exampleState\<lparr> days := [] \<rparr>) (Local_Day 19884)
      = Some (yesterday ''2024-06-09'')"
proof -
  have a: "\<not> isMonthPlanComplete
      (exampleState\<lparr> days := [], weekPlans := Map.empty, fastPlans := Map.empty \<rparr>) ''2024-06''"
    by (simp add: isMonthPlanComplete_def)
  have b: "isMonthPlanComplete (exampleState\<lparr> days := [], weekPlans := Map.empty \<rparr>) ''2024-06''"
    "isMonthPlanConfirmed (exampleState\<lparr> days := [], weekPlans := Map.empty \<rparr>) ''2024-06''"
    "\<not> isWeekPlanComplete (exampleState\<lparr> days := [], weekPlans := Map.empty \<rparr>) ''2024-06-09''"
    by (simp_all add: isMonthPlanComplete_def isMonthPlanConfirmed_def isWeekPlanComplete_def
          exampleState_def truthy_def or_default_def)
  have c: "isMonthPlanComplete (exampleState\<lparr> days := [] \<rparr>) ''2024-06''"
    "isMonthPlanConfirmed (exampleState\<lparr> days := [] \<rparr>) ''2024-06''"
    "isWeekPlanComplete (exampleState\<lparr> days := [] \<rparr>) ''2024-06-09''"
    "isWeekPlanConfirmed (exampleState\<lparr> days := [] \<rparr>) ''2024-06-09''"
    "\<not> Date_less (parseDate ''2024-06-09'') (parseDate (trackingStart (exampleState\<lparr> days := [] \<rparr>)))"
    "\<not> isDayComplete (exampleState\<lparr> days := [] \<rparr>)
         (getDay (exampleState\<lparr> days := [] \<rparr>) ''2024-06-09'') ''2024-06-09''"
    by (simp_all add: isMonthPlanComplete_def isMonthPlanConfirmed_def isWeekPlanComplete_def
          isWeekPlanConfirmed_def exampleState_def truthy_def or_default_def example_parse
          isDayComplete_def getDay_def createEmptyDay_def)
  from a b c
    getBlockingOverlay_priority [of
      "exampleState\<lparr> days := [], weekPlans := Map.empty, fastPlans := Map.empty \<rparr>"
      "Local_Day 19884" "''2024-06-09''"]
    getBlockingOverlay_priority [of "exampleState\<lparr> days := [], weekPlans := Map.empty \<rparr>"
      "Local_Day 19884" "''2024-06-09''"]
    getBlockingOverlay_priority [of "exampleState\<lparr> days := [] \<rparr>"
      "Local_Day 19884" "''2024-06-09''"]
  show ?thesis
    by (simp add: example_today)
qed

text \<open>
  C2. When the current month's and week's plans are complete and confirmed and
  yesterday (the day before the current day, from 1970 on) is strictly before the day
  \<^verbatim>\<open>trackingStart\<close> parses to, \<open>getBlockingOverlay\<close> gives no overlay, whatever the days
  hold.
\<close>

theorem getBlockingOverlay_before_trackingStart:
  assumes "isMonthPlanComplete s (getMonthKey (Local_Day t))"
    and "isMonthPlanConfirmed s (getMonthKey (Local_Day t))"
    and "isWeekPlanComplete s (getWeekKey (Local_Day t))"
    and "isWeekPlanConfirmed s (getWeekKey (Local_Day t))"
    and "parseDate (trackingStart s) = Local_Day start"
    and "t - 1 < start"
    and "0 \<le> t"
  shows "getBlockingOverlay s (Local_Day t) = None"
proof -
  from \<open>0 \<le> t\<close> have "400 \<le> fst (civil_from_days t)" "400 \<le> fst (civil_from_days (t - 1))"
    by (simp_all add: year_from_400)
  then have y: "\<not> (0 \<le> fst (civil_from_days t) \<and> fst (civil_from_days t) \<le> 99)"
    and y1: "100 \<le> fst (civil_from_days (t - 1))"
    by simp_all
  have "addDays (Local_Day t) (Some (- 1)) = Local_Day (t - 1)"
    using addDays_Local_Day [OF y, of "- 1"] by simp
  then have "parseDate (formatDate (addDays (Local_Day t) (Some (- 1)))) = Local_Day (t - 1)"
    by (simp add: parseDate_formatDate [OF y1])
  with assms show ?thesis
    by (simp add: getBlockingOverlay_def Let_def)
qed

theorem getBlockingOverlay_before_trackingStart_witness:
  "parseDate (trackingStart (exampleState\<lparr> days := [], trackingStart := ''2024-06-10'' \<rparr>))
     = Local_Day 19884
   \<and> getBlockingOverlay (exampleState\<lparr> days := [], trackingStart := ''2024-06-10'' \<rparr>)
        (Local_Day 19884) = None"
proof -
  have plans:
    "isMonthPlanComplete (exampleState\<lparr> days := [], trackingStart := ''2024-06-10'' \<rparr>)
      (getMonthKey (Local_Day 19884))"
    "isMonthPlanConfirmed (exampleState\<lparr> days := [], trackingStart := ''2024-06-10'' \<rparr>)
      (getMonthKey (Local_Day 19884))"
    "isWeekPlanComplete (exampleState\<lparr> days := [], trackingStart := ''2024-06-10'' \<rparr>)
      (getWeekKey (Local_Day 19884))"
    "isWeekPlanConfirmed (exampleState\<lparr> days := [], trackingStart := ''2024-06-10'' \<rparr>)
      (getWeekKey (Local_Day 19884))"
    by (simp_all add: example_today isMonthPlanComplete_def isMonthPlanConfirmed_def
          isWeekPlanComplete_def isWeekPlanConfirmed_def exampleState_def truthy_def
          or_default_def)
  have start:
    "parseDate (trackingStart (exampleState\<lparr> days := [], trackingStart := ''2024-06-10'' \<rparr>))
       = Local_Day 19884"
    by (simp add: example_parse)
  from getBlockingOverlay_before_trackingStart [OF plans start] start
  show ?thesis
    by simp
qed

subsection \<open>Loading\<close>

text \<open>
  C3, as the code has it. With no stored value, or when reading it throws, \<open>loadState\<close>
  is the default state: every map empty and \<^verbatim>\<open>trackingStart\<close> the current date. A parsed
  object without \<^verbatim>\<open>trackingStart\<close> gets the current date as \<^verbatim>\<open>trackingStart\<close>, and each of
  its other properties is kept when present and empty when absent. No case reports an
  error: \<open>loadState\<close> is a total function into \<^verbatim>\<open>AppState\<close>.
\<close>

theorem loadState_fallback:
  "loadState now NoValue = defaultState now
   \<and> loadState now Throws = defaultState now
   \<and> defaultState now =
       \<lparr> days = [], weekPlans = Map.empty, fastPlans = Map.empty,
         trackingStart = formatDate now, confirmedWeeks = Map.empty,
         confirmedMonths = Map.empty \<rparr>
   \<and> (pa_trackingStart p = None \<longrightarrow>
        trackingStart (loadState now (Parsed p)) = formatDate now
      \<and> days (loadState now (Parsed p)) = (case pa_days p of None \<Rightarrow> [] | Some v \<Rightarrow> v)
      \<and> weekPlans (loadState now (Parsed p)) =
          (case pa_weekPlans p of None \<Rightarrow> Map.empty | Some v \<Rightarrow> v)
      \<and> fastPlans (loadState now (Parsed p)) =
          (case pa_fastPlans p of None \<Rightarrow> Map.empty | Some v \<Rightarrow> v)
      \<and> confirmedWeeks (loadState now (Parsed p)) =
          (case pa_confirmedWeeks p of None \<Rightarrow> Map.empty | Some v \<Rightarrow> v)
      \<and> confirmedMonths (loadState now (Parsed p)) =
          (case pa_confirmedMonths p of None \<Rightarrow> Map.empty | Some v \<Rightarrow> v))"
  by (simp add: loadState_def defaultState_def or_default_def split: option.splits)

text \<open>
  C3 as stated fails: a parsed object with \<^verbatim>\<open>days\<close> and no \<^verbatim>\<open>trackingStart\<close> is not
  reset to the default state, its days are loaded.
\<close>

theorem loadState_keeps_other_fields:
  "pa_trackingStart examplePersisted = None
   \<and> loadState (Local_Day 19884) (Parsed examplePersisted) \<noteq> defaultState (Local_Day 19884)
   \<and> days (loadState (Local_Day 19884) (Parsed examplePersisted)) \<noteq> []"
  by (simp add: examplePersisted_def loadState_def defaultState_def or_default_def)

theorem loadState_fallback_witness:
  "trackingStart (loadState (Local_Day 19884) (Parsed examplePersisted)) = ''2024-06-10''
   \<and> days (loadState (Local_Day 19884) (Parsed examplePersisted))
      = [(''2024-06-09'', emptyObject\<lparr> p_dessertPass := Some (Some yes) \<rparr>)]
   \<and> weekPlans (loadState (Local_Day 19884) (Parsed examplePersisted)) = Map.empty"
proof -
  have fmt: "formatDate (Local_Day 19884) = ''2024-06-10''"
    by (rule example_format)
  have none: "pa_trackingStart examplePersisted = None"
    by (simp add: examplePersisted_def)
  from loadState_fallback [of "Local_Day 19884" examplePersisted] none fmt
  show ?thesis
    by (simp add: examplePersisted_def)
qed

subsection \<open>Weight averages\<close>

text \<open>
  The double model. A double rounds to itself; within one binade \<open>2 ^ j \<le> \<bar>x\<bar> < 2 ^ Suc j\<close>
  the unit in the last place is \<open>2 ^ j / 2 ^ 52\<close>, which is how the examples are computed.
\<close>

lemma round_half_even_of_int: "round_half_even (of_int f) = f"
  by (simp add: round_half_even_def)

lemma round_double_exact:
  assumes "is_double x"
  shows "round_double x = Finite x"
proof -
  define q where "q = x * 2 ^ 1074 / 2 ^ ulp_shift x"
  from assms [unfolded is_double_def, folded q_def]
  have q: "of_int \<lfloor>q\<rfloor> = q" and small: "\<bar>x\<bar> < 2 ^ 1024"
    by (rule conjunct1, rule conjunct2)
  have "round_half_even q = \<lfloor>q\<rfloor>"
    using round_half_even_of_int [of "\<lfloor>q\<rfloor>"] by (simp only: q)
  then have "of_int (round_half_even q) * 2 ^ ulp_shift x / 2 ^ 1074
      = q * 2 ^ ulp_shift x / 2 ^ 1074"
    by (simp only: q)
  also have "\<dots> = x"
    unfolding q_def by (simp only: nonzero_divide_eq_eq nonzero_eq_divide_eq
        times_divide_eq_left power_not_zero zero_neq_numeral
        nonzero_mult_div_cancel_right not_False_eq_True)
  finally have v: "of_int (round_half_even q) * 2 ^ ulp_shift x / 2 ^ 1074 = x" .
  from small have "\<not> 2 ^ 1024 \<le> \<bar>x\<bar>"
    by (simp only: not_le)
  then show ?thesis
    unfolding round_double_def Let_def q_def [symmetric] v by (simp only: if_False)
qed

lemma bitlen_eqI:
  assumes "2 ^ k \<le> n" "n < 2 ^ Suc k"
  shows "bitlen n = int (Suc k)"
proof (rule antisym)
  show "bitlen n \<le> int (Suc k)"
    using assms(2) bitlen_le_iff_power [of n "int (Suc k)"] by (simp add: nat_add_distrib)
  show "int (Suc k) \<le> bitlen n"
    using assms(1) bitlen_ge_iff_power [of "int (Suc k)" n] by (simp add: nat_add_distrib)
qed

lemma ulp_shift_binade:
  fixes x :: rat
  assumes "2 ^ j \<le> \<bar>x\<bar>" "\<bar>x\<bar> < 2 ^ Suc j"
  shows "ulp_shift x = j + 1022"
proof -
  have lo: "(2 :: int) ^ (j + 1074) \<le> \<lfloor>\<bar>x\<bar> * 2 ^ 1074\<rfloor>"
  proof -
    have "(2 :: rat) ^ (j + 1074) = 2 ^ j * 2 ^ 1074"
      by (rule power_add)
    also have "\<dots> \<le> \<bar>x\<bar> * 2 ^ 1074"
      using assms(1) by (rule mult_right_mono) simp
    finally show ?thesis
      by (simp only: le_floor_iff of_int_power of_int_numeral)
  qed
  have hi: "\<lfloor>\<bar>x\<bar> * 2 ^ 1074\<rfloor> < (2 :: int) ^ Suc (j + 1074)"
  proof -
    have "\<bar>x\<bar> * 2 ^ 1074 < 2 ^ Suc j * 2 ^ 1074"
      using assms(2) by (rule mult_strict_right_mono) simp
    also have "\<dots> = (2 :: rat) ^ Suc (j + 1074)"
      by (simp only: power_add [symmetric] add_Suc)
    finally show ?thesis
      by (simp only: floor_less_iff of_int_power of_int_numeral)
  qed
  from bitlen_eqI [OF lo hi] show ?thesis
    by (simp add: ulp_shift_def)
qed

lemma round_double_binade:
  fixes x :: rat
  assumes "2 ^ j \<le> \<bar>x\<bar>" "\<bar>x\<bar> < 2 ^ Suc j"
  shows "round_double x =
     (let m = round_half_even (x * 2 ^ 52 / 2 ^ j);
          v = of_int m * 2 ^ j / 2 ^ 52
      in if 2 ^ 1024 \<le> \<bar>v\<bar> then (if 0 < x then PosInfinity else NegInfinity)
         else Finite v)"
proof -
  have a: "x * 2 ^ 1074 / 2 ^ (j + 1022) = x * 2 ^ 52 / 2 ^ j" for x :: rat
  proof -
    have "(2 :: rat) ^ 1074 = 2 ^ 52 * 2 ^ 1022" "(2 :: rat) ^ (j + 1022) = 2 ^ j * 2 ^ 1022"
      by (simp_all only: power_add [symmetric]) simp_all
    then show ?thesis
      by simp
  qed
  have b: "y * 2 ^ (j + 1022) / 2 ^ 1074 = y * 2 ^ j / 2 ^ 52" for y :: rat
  proof -
    have "(2 :: rat) ^ 1074 = 2 ^ 52 * 2 ^ 1022" "(2 :: rat) ^ (j + 1022) = 2 ^ j * 2 ^ 1022"
      by (simp_all only: power_add [symmetric]) simp_all
    then show ?thesis
      by simp
  qed
  show ?thesis
    unfolding round_double_def Let_def ulp_shift_binade [OF assms] a b by (rule refl)
qed

lemma is_double_binade:
  fixes x :: rat
  assumes "2 ^ j \<le> \<bar>x\<bar>" "\<bar>x\<bar> < 2 ^ Suc j"
  shows "is_double x =
     (of_int \<lfloor>x * 2 ^ 52 / 2 ^ j\<rfloor> = x * 2 ^ 52 / 2 ^ j \<and> \<bar>x\<bar> < 2 ^ 1024)"
proof -
  have a: "x * 2 ^ 1074 / 2 ^ (j + 1022) = x * 2 ^ 52 / 2 ^ j"
  proof -
    have "(2 :: rat) ^ 1074 = 2 ^ 52 * 2 ^ 1022" "(2 :: rat) ^ (j + 1022) = 2 ^ j * 2 ^ 1022"
      by (simp_all only: power_add [symmetric]) simp_all
    then show ?thesis
      by simp
  qed
  show ?thesis
    unfolding is_double_def ulp_shift_binade [OF assms] a by (rule refl)
qed

lemma floor_numeral_div:
  "\<lfloor>(numeral a :: rat) / numeral b\<rfloor> = numeral a div numeral b"
  using floor_divide_of_int_eq [of "numeral a" "numeral b", where ?'a = rat] by simp

lemma is_double_0: "is_double 0"
  by (simp add: is_double_def ulp_shift_def)

text \<open>
  The doubles are the numbers \<open>m * 2 ^ e / 2 ^ 1074\<close> with \<open>\<bar>m\<bar> < 2 ^ 53\<close> and \<open>e \<le> 2045\<close>:
  a significand of at most 53 bits and an exponent between the subnormal one and the
  largest one.
\<close>

lemma ulp_shift_int:
  assumes "m \<noteq> 0"
  shows "ulp_shift (of_int m * 2 ^ e / 2 ^ 1074) = nat (bitlen \<bar>m\<bar> + int e - 53)"
proof -
  have "\<bar>rat_of_int m * 2 ^ e / 2 ^ 1074\<bar> * 2 ^ 1074 = of_int (\<bar>m\<bar> * 2 ^ e)"
    by (simp add: abs_mult)
  then have "\<lfloor>\<bar>rat_of_int m * 2 ^ e / 2 ^ 1074\<bar> * 2 ^ 1074\<rfloor> = \<bar>m\<bar> * 2 ^ e"
    by (simp only: floor_of_int)
  moreover from assms have "bitlen (\<bar>m\<bar> * 2 ^ e) = bitlen \<bar>m\<bar> + int e"
    by simp
  ultimately show ?thesis
    by (simp only: ulp_shift_def)
qed

lemma is_double_int:
  assumes "\<bar>m\<bar> < 2 ^ 53" "e \<le> 2045"
  shows "is_double (of_int m * 2 ^ e / 2 ^ 1074)"
proof (cases "m = 0")
  case True
  then show ?thesis
    by (simp add: is_double_0)
next
  case False
  define s where "s = nat (bitlen \<bar>m\<bar> + int e - 53)"
  from assms(1) have "bitlen \<bar>m\<bar> \<le> 53"
    using bitlen_le_iff_power [of "\<bar>m\<bar>" 53] by simp
  then have s: "s \<le> e"
    by (simp add: s_def)
  have "rat_of_int m * 2 ^ e / 2 ^ 1074 * 2 ^ 1074 / 2 ^ s = of_int (m * 2 ^ (e - s))"
  proof -
    have "(2 :: rat) ^ e = 2 ^ (e - s) * 2 ^ s"
      using s by (simp only: power_add [symmetric] le_add_diff_inverse2)
    then show ?thesis
      by simp
  qed
  then have whole: "of_int \<lfloor>rat_of_int m * 2 ^ e / 2 ^ 1074 * 2 ^ 1074 / 2 ^ s\<rfloor>
      = rat_of_int m * 2 ^ e / 2 ^ 1074 * 2 ^ 1074 / 2 ^ s"
    by (simp only: floor_of_int)
  have "\<bar>rat_of_int m * 2 ^ e / 2 ^ 1074\<bar> = of_int \<bar>m\<bar> * 2 ^ e / 2 ^ 1074"
    by (simp add: abs_mult)
  also have "\<dots> < 2 ^ 53 * 2 ^ 2045 / 2 ^ 1074"
  proof -
    from assms(1) have "rat_of_int \<bar>m\<bar> < 2 ^ 53"
      by (simp only: of_int_less_numeral_power_cancel_iff)
    moreover from assms(2) have "(2 :: rat) ^ e \<le> 2 ^ 2045"
      by (simp only: power_increasing_iff one_less_numeral_iff semiring_norm)
    ultimately have "rat_of_int \<bar>m\<bar> * 2 ^ e < 2 ^ 53 * 2 ^ 2045"
      by (intro mult_less_le_imp_less) simp_all
    then show ?thesis
      by (simp only: divide_strict_right_mono zero_less_power zero_less_numeral)
  qed
  also have "\<dots> = (2 :: rat) ^ 1024"
  proof -
    have "(2 :: rat) ^ 53 * 2 ^ 2045 = 2 ^ 1024 * 2 ^ 1074"
      by (simp only: power_add [symmetric]) simp
    then show ?thesis
      by simp
  qed
  finally have small: "\<bar>rat_of_int m * 2 ^ e / 2 ^ 1074\<bar> < 2 ^ 1024" .
  from whole small show ?thesis
    unfolding is_double_def ulp_shift_int [OF False] s_def [symmetric] by (rule conjI)
qed

lemma ulp_shift_upper: "\<bar>x\<bar> * 2 ^ 1074 < 2 ^ (ulp_shift x + 53)"
proof -
  define N where "N = \<lfloor>\<bar>x\<bar> * 2 ^ 1074\<rfloor>"
  have "bitlen N \<le> int (ulp_shift x + 53)"
    by (simp add: ulp_shift_def N_def)
  then have "N < 2 ^ (ulp_shift x + 53)"
    using bitlen_le_iff_power [of N "int (ulp_shift x + 53)"] by (simp only: nat_int)
  then show ?thesis
    unfolding N_def by (simp only: floor_less_iff of_int_power of_int_numeral)
qed

lemma ulp_shift_lower:
  assumes "0 < ulp_shift x"
  shows "2 ^ (ulp_shift x + 52) \<le> \<bar>x\<bar> * 2 ^ 1074"
proof -
  define N where "N = \<lfloor>\<bar>x\<bar> * 2 ^ 1074\<rfloor>"
  from assms have "int (ulp_shift x + 53) \<le> bitlen N"
    by (simp add: ulp_shift_def N_def)
  then have "2 ^ (ulp_shift x + 52) \<le> N"
    using bitlen_ge_iff_power [of "int (ulp_shift x + 53)" N]
    by (simp add: nat_add_distrib add.commute)
  then show ?thesis
    unfolding N_def by (simp only: le_floor_iff of_int_power of_int_numeral)
qed

lemma is_double_repr:
  assumes "is_double x"
  shows "\<exists>m e. \<bar>m\<bar> < 2 ^ 53 \<and> e \<le> 2045 \<and> x = of_int m * 2 ^ e / 2 ^ 1074"
proof -
  define s where "s = ulp_shift x"
  define n where "n = \<lfloor>x * 2 ^ 1074 / 2 ^ s\<rfloor>"
  from assms [unfolded is_double_def, folded s_def, folded n_def]
  have n: "of_int n = x * 2 ^ 1074 / 2 ^ s" and small: "\<bar>x\<bar> < 2 ^ 1024"
    by (rule conjunct1, rule conjunct2)
  have x: "x = of_int n * 2 ^ s / 2 ^ 1074"
    unfolding n by (simp only: nonzero_divide_eq_eq nonzero_eq_divide_eq
        times_divide_eq_left power_not_zero zero_neq_numeral
        nonzero_mult_div_cancel_right not_False_eq_True)
  have "\<bar>rat_of_int n\<bar> * 2 ^ s = \<bar>x\<bar> * 2 ^ 1074"
  proof -
    have "\<bar>rat_of_int n\<bar> = \<bar>x\<bar> * 2 ^ 1074 / 2 ^ s"
      unfolding n by (simp only: abs_divide abs_mult power_abs abs_numeral)
    then show ?thesis
      by (simp only: nonzero_divide_eq_eq nonzero_eq_divide_eq
        times_divide_eq_left power_not_zero zero_neq_numeral
        nonzero_mult_div_cancel_right not_False_eq_True)
  qed
  also have "\<dots> < 2 ^ (s + 53)"
    unfolding s_def by (rule ulp_shift_upper)
  also have "\<dots> = (2 :: rat) ^ 53 * 2 ^ s"
    by (simp only: power_add mult.commute)
  finally have "\<bar>rat_of_int n\<bar> < 2 ^ 53"
    by (simp only: mult_less_cancel_right_pos zero_less_power zero_less_numeral)
  then have m: "\<bar>n\<bar> < 2 ^ 53"
    by (simp only: of_int_abs [symmetric] of_int_less_numeral_power_cancel_iff)
  have e: "s \<le> 2045"
  proof (rule ccontr)
    assume "\<not> s \<le> 2045"
    then have big: "2046 \<le> s"
      by simp
    then have "0 < ulp_shift x"
      by (simp add: s_def)
    then have "2 ^ (s + 52) \<le> \<bar>x\<bar> * 2 ^ 1074"
      unfolding s_def by (rule ulp_shift_lower)
    moreover have "(2 :: rat) ^ 2098 \<le> 2 ^ (s + 52)"
      using big by (simp only: power_increasing_iff one_less_numeral_iff semiring_norm)
    moreover have "\<bar>x\<bar> * 2 ^ 1074 < 2 ^ 1024 * 2 ^ 1074"
      using small by (simp only: mult_less_cancel_right_pos zero_less_power zero_less_numeral)
    moreover have "(2 :: rat) ^ 1024 * 2 ^ 1074 = 2 ^ 2098"
      by (simp only: power_add [symmetric]) simp
    ultimately show False
      by linarith
  qed
  from m e x show ?thesis
    by blast
qed

text \<open>Rounding gives a double: the finite numbers the program computes are doubles.\<close>

lemma round_half_even_le: "q \<le> of_int N \<Longrightarrow> round_half_even q \<le> N"
proof (cases "q = of_int N")
  case True
  then show ?thesis
    by (simp add: round_half_even_of_int)
next
  case False
  assume "q \<le> of_int N"
  with False have "q < of_int N"
    by simp
  then have "\<lfloor>q\<rfloor> < N"
    by (simp add: floor_less_iff)
  then show ?thesis
    by (simp add: round_half_even_def Let_def)
qed

lemma round_half_even_ge: "of_int N \<le> q \<Longrightarrow> N \<le> round_half_even q"
proof -
  assume "of_int N \<le> q"
  then have "N \<le> \<lfloor>q\<rfloor>"
    by (simp add: le_floor_iff)
  then show ?thesis
    by (simp add: round_half_even_def Let_def)
qed

lemma is_double_pow2:
  assumes "e \<le> 2097"
  shows "is_double (2 ^ e / 2 ^ 1074)" "is_double (- (2 ^ e / 2 ^ 1074))"
proof -
  have "is_double (of_int 1 * 2 ^ 0 / 2 ^ 1074)" "is_double (of_int (- 1) * 2 ^ 0 / 2 ^ 1074)"
    by (rule is_double_int; simp)+
  show "is_double (2 ^ e / 2 ^ 1074)"
  proof (cases "e \<le> 2045")
    case True
    then have "is_double (of_int 1 * 2 ^ e / 2 ^ 1074)"
      by (intro is_double_int) simp_all
    then show ?thesis
      by (simp only: of_int_1 mult_1)
  next
    case False
    define d where "d = e - 52"
    from False assms have d: "d \<le> 2045" "e = d + 52"
      by (simp_all add: d_def)
    have "is_double (of_int (2 ^ 52) * 2 ^ d / 2 ^ 1074)"
      using d(1) by (intro is_double_int) simp_all
    moreover have "rat_of_int (2 ^ 52) * 2 ^ d = 2 ^ e"
      unfolding d(2) by (simp only: of_int_power of_int_numeral power_add mult.commute)
    ultimately show ?thesis
      by (simp only:)
  qed
  show "is_double (- (2 ^ e / 2 ^ 1074))"
  proof (cases "e \<le> 2045")
    case True
    then have "is_double (of_int (- 1) * 2 ^ e / 2 ^ 1074)"
      by (intro is_double_int) simp_all
    then show ?thesis
      by (simp only: of_int_minus of_int_1 mult_minus1 minus_divide_left)
  next
    case False
    define d where "d = e - 52"
    from False assms have d: "d \<le> 2045" "e = d + 52"
      by (simp_all add: d_def)
    have "is_double (of_int (- (2 ^ 52)) * 2 ^ d / 2 ^ 1074)"
      using d(1) by (intro is_double_int) simp_all
    moreover have "rat_of_int (- (2 ^ 52)) * 2 ^ d = - (2 ^ e)"
      unfolding d(2)
      by (simp only: of_int_minus of_int_power of_int_numeral power_add mult.commute
          mult_minus_right mult_minus_left)
    ultimately show ?thesis
      by (simp only: minus_divide_left)
  qed
qed

lemma round_double_is_double:
  assumes "round_double x = Finite v"
  shows "is_double v"
proof -
  define s where "s = ulp_shift x"
  define q where "q = x * 2 ^ 1074 / 2 ^ s"
  define m where "m = round_half_even q"
  from assms have v: "v = of_int m * 2 ^ s / 2 ^ 1074"
    and small: "\<bar>rat_of_int m * 2 ^ s / 2 ^ 1074\<bar> < 2 ^ 1024"
    unfolding round_double_def Let_def s_def [symmetric] q_def [symmetric] m_def [symmetric]
    by (simp_all only: not_le split: if_splits) (simp_all only: number.inject number.distinct)
  have absq: "\<bar>q\<bar> * 2 ^ s = \<bar>x\<bar> * 2 ^ 1074"
  proof -
    have "\<bar>q\<bar> = \<bar>x\<bar> * 2 ^ 1074 / 2 ^ s"
      unfolding q_def by (simp only: abs_divide abs_mult power_abs abs_numeral)
    then show ?thesis
      by (simp only: nonzero_divide_eq_eq nonzero_eq_divide_eq
        times_divide_eq_left power_not_zero zero_neq_numeral
        nonzero_mult_div_cancel_right not_False_eq_True)
  qed
  note absq
  also have "\<bar>x\<bar> * 2 ^ 1074 < 2 ^ (s + 53)"
    unfolding s_def by (rule ulp_shift_upper)
  also have "\<dots> = (2 :: rat) ^ 53 * 2 ^ s"
    by (simp only: power_add mult.commute)
  finally have "\<bar>q\<bar> < 2 ^ 53"
    by (simp only: mult_less_cancel_right_pos zero_less_power zero_less_numeral)
  then have "q \<le> of_int (2 ^ 53)" "of_int (- (2 ^ 53)) \<le> q"
    by (simp_all only: of_int_minus of_int_power of_int_numeral)
  then have "m \<le> 2 ^ 53" "- (2 ^ 53) \<le> m"
    unfolding m_def by (simp_all only: round_half_even_le round_half_even_ge)
  then have mle: "\<bar>m\<bar> \<le> 2 ^ 53"
    by linarith
  have absv: "\<bar>rat_of_int m\<bar> * 2 ^ s < 2 ^ 1024 * 2 ^ 1074"
  proof -
    have "\<bar>rat_of_int m * 2 ^ s / 2 ^ 1074\<bar> = \<bar>rat_of_int m\<bar> * 2 ^ s / 2 ^ 1074"
      by (simp only: abs_divide abs_mult power_abs abs_numeral)
    with small have "\<bar>rat_of_int m\<bar> * 2 ^ s / 2 ^ 1074 < 2 ^ 1024"
      by (simp only:)
    then show ?thesis
      by (simp only: pos_divide_less_eq zero_less_power zero_less_numeral)
  qed
  show ?thesis
  proof (cases "\<bar>m\<bar> = 2 ^ 53")
    case True
    then have "\<bar>rat_of_int m\<bar> = 2 ^ 53"
      by (simp only: of_int_abs [symmetric] of_int_power of_int_numeral)
    with absv have "(2 :: rat) ^ (53 + s) < 2 ^ (1024 + 1074)"
      by (simp only: power_add)
    then have "53 + s < 1024 + 1074"
      by (simp only: power_strict_increasing_iff one_less_numeral_iff semiring_norm)
    then have e: "s + 53 \<le> 2097"
      by simp
    from True have "m = 2 ^ 53 \<or> m = - (2 ^ 53)"
      by linarith
    then have "v = 2 ^ (s + 53) / 2 ^ 1074 \<or> v = - (2 ^ (s + 53) / 2 ^ 1074)"
      unfolding v
      by (auto simp only: of_int_minus of_int_power of_int_numeral power_add mult.commute
          mult_minus_right mult_minus_left minus_divide_left)
    then show ?thesis
    proof
      assume pos: "v = 2 ^ (s + 53) / 2 ^ 1074"
      show ?thesis
        unfolding pos by (rule is_double_pow2(1) [OF e])
    next
      assume neg: "v = - (2 ^ (s + 53) / 2 ^ 1074)"
      show ?thesis
        unfolding neg by (rule is_double_pow2(2) [OF e])
    qed
  next
    case False
    with mle have mlt: "\<bar>m\<bar> < 2 ^ 53"
      by linarith
    have "s \<le> 2045"
    proof (rule ccontr)
      assume "\<not> s \<le> 2045"
      then have big: "2046 \<le> s"
        by simp
      then have "0 < ulp_shift x"
        by (simp add: s_def)
      then have "2 ^ (s + 52) \<le> \<bar>x\<bar> * 2 ^ 1074"
        unfolding s_def by (rule ulp_shift_lower)
      also have "\<dots> = \<bar>q\<bar> * 2 ^ s"
        by (simp only: absq)
      finally have "(2 :: rat) ^ 52 * 2 ^ s \<le> \<bar>q\<bar> * 2 ^ s"
        by (simp only: power_add mult.commute)
      then have q52: "2 ^ 52 \<le> \<bar>q\<bar>"
        by (simp only: mult_le_cancel_right_pos zero_less_power zero_less_numeral)
      have "2 ^ 52 \<le> \<bar>m\<bar>"
      proof (cases "0 \<le> q")
        case True
        with q52 have "of_int (2 ^ 52) \<le> q"
          by (simp only: of_int_power of_int_numeral; linarith)
        then have "2 ^ 52 \<le> m"
          unfolding m_def by (rule round_half_even_ge)
        then show ?thesis
          by linarith
      next
        case False
        with q52 have "q \<le> of_int (- (2 ^ 52))"
          by (simp only: of_int_minus of_int_power of_int_numeral; linarith)
        then have "m \<le> - (2 ^ 52)"
          unfolding m_def by (rule round_half_even_le)
        then show ?thesis
          by linarith
      qed
      then have "(2 :: rat) ^ 52 \<le> \<bar>rat_of_int m\<bar>"
        by (simp only: of_int_abs [symmetric] numeral_power_le_of_int_cancel_iff)
      moreover have "(2 :: rat) ^ 2046 \<le> 2 ^ s"
        using big by (simp only: power_increasing_iff one_less_numeral_iff semiring_norm)
      ultimately have "(2 :: rat) ^ 52 * 2 ^ 2046 \<le> \<bar>rat_of_int m\<bar> * 2 ^ s"
        by (intro mult_mono) simp_all
      moreover have "(2 :: rat) ^ 52 * 2 ^ 2046 = 2 ^ 1024 * 2 ^ 1074"
        by (simp only: power_add [symmetric]) simp
      ultimately show False
        using absv by linarith
    qed
    with mlt show ?thesis
      unfolding v by (rule is_double_int)
  qed
qed

text \<open>
  The doubles of the examples. \<open>5281174250533683 / 35184372088832\<close> is the double written
  \<^verbatim>\<open>150.1\<close>, \<open>2642346343871283 / 17592186044416\<close> is \<^verbatim>\<open>150.2\<close>,
  \<open>1320733367284531 / 8796093022208\<close> is \<^verbatim>\<open>150.14999999999998\<close> and
  \<open>7083786913884843 / 70368744177664\<close> is \<^verbatim>\<open>100.66666666666667\<close>.
\<close>

lemma example_doubles:
  "is_double 100" "is_double 101" "is_double 201" "is_double 302"
  "is_double 150" "is_double 300" "is_double (299 / 2)" "is_double (301 / 2)"
  "is_double (5281174250533683 / 35184372088832)"
  "is_double (2642346343871283 / 17592186044416)"
  using is_double_binade [of 6 100] is_double_binade [of 6 101] is_double_binade [of 7 201]
    is_double_binade [of 8 302] is_double_binade [of 7 150] is_double_binade [of 8 300]
    is_double_binade [of 7 "299 / 2"] is_double_binade [of 7 "301 / 2"]
    is_double_binade [of 7 "5281174250533683 / 35184372088832"]
    is_double_binade [of 7 "2642346343871283 / 17592186044416"]
  by (simp_all add: floor_numeral_div)


lemma example_rounding:
  "round_double (5281174250533683 / 35184372088832 + 2642346343871283 / 17592186044416)
     = Finite (1320733367284531 / 4398046511104)"
  "round_double (1320733367284531 / 4398046511104 / 2) = Finite (1320733367284531 / 8796093022208)"
  "round_double (302 / 3) = Finite (7083786913884843 / 70368744177664)"
  "round_double (MAX_VALUE + MAX_VALUE) = PosInfinity"
  using
    round_double_binade [of 8
      "5281174250533683 / 35184372088832 + 2642346343871283 / 17592186044416"]
    round_double_binade [of 7 "1320733367284531 / 4398046511104 / 2"]
    round_double_binade [of 6 "302 / 3"]
    round_double_binade [of 1024 "MAX_VALUE + MAX_VALUE"]
  by (simp_all add: round_half_even_def Let_def floor_numeral_div MAX_VALUE_def)

lemma getDailyAverage_both:
  "weightMorning day = Some (Finite a) \<Longrightarrow> weightNight day = Some (Finite b) \<Longrightarrow>
     getDailyAverage day = Some (num_div (num_add (Finite a) (Finite b)) (Finite 2))"
  by (simp add: getDailyAverage_def or_default_def)

text \<open>
  The daily average of a day whose weights are doubles is a double, when it is finite.
\<close>

lemma getDailyAverage_is_double:
  assumes "getDailyAverage day = Some (Finite r)"
    and "\<And>a. weightMorning day = Some (Finite a) \<Longrightarrow> is_double a"
    and "\<And>b. weightNight day = Some (Finite b) \<Longrightarrow> is_double b"
  shows "is_double r"
proof (cases "Number_isFinite (weightMorning day)")
  case m: True
  then obtain a where a: "weightMorning day = Some (Finite a)"
    by (auto elim: Number_isFinite.elims)
  show ?thesis
  proof (cases "Number_isFinite (weightNight day)")
    case True
    then obtain b where b: "weightNight day = Some (Finite b)"
      by (auto elim: Number_isFinite.elims)
    from a b assms(1) have r: "num_div (num_add (Finite a) (Finite b)) (Finite 2) = Finite r"
      by (simp add: getDailyAverage_both)
    then obtain c where "round_double (a + b) = Finite c" "round_double (c / 2) = Finite r"
      by (cases "round_double (a + b)") simp_all
    then show ?thesis
      by (simp only: round_double_is_double)
  next
    case False
    with a assms(1) have "r = a"
      by (simp add: getDailyAverage_def)
    with a assms(2) show ?thesis
      by simp
  qed
next
  case m: False
  show ?thesis
  proof (cases "Number_isFinite (weightNight day)")
    case True
    then obtain b where b: "weightNight day = Some (Finite b)"
      by (auto elim: Number_isFinite.elims)
    with m assms(1) have "r = b"
      by (simp add: getDailyAverage_def)
    with b assms(3) show ?thesis
      by simp
  next
    case False
    with m assms(1) show ?thesis
      by (simp add: getDailyAverage_def)
  qed
qed




text \<open>
  The range of \<open>buildDateRange\<close> is the calendar days \<open>e - n + 1\<close> to \<open>e\<close>, and the rolling
  average is \<open>doubleMean\<close> of their finite daily averages.
\<close>

lemma upto_as_map: "map (\<lambda>i. a + int i) [0..<n] = [a..a + int n - 1]"
proof (induction n)
  case 0
  show ?case by simp
next
  case (Suc n)
  have "[a..a + int (Suc n) - 1] = [a..a + int n - 1] @ [a + int n]"
    using upto_rec2 [of a "a + int n"] by simp
  with Suc show ?case
    by simp
qed

lemma buildDateRange_days:
  assumes "\<not> (0 \<le> fst (civil_from_days e) \<and> fst (civil_from_days e) \<le> 99)"
  shows "buildDateRange (Local_Day e) n
           = map (\<lambda>z. formatDate (Local_Day z)) [e - int n + 1..e]"
proof -
  have "buildDateRange (Local_Day e) n
          = map (\<lambda>z. formatDate (Local_Day z)) (map (\<lambda>i. (e - int n + 1) + int i) [0..<n])"
    by (simp add: buildDateRange_def addDays_Local_Day [OF assms] algebra_simps)
  also have "map (\<lambda>i. (e - int n + 1) + int i) [0..<n] = [e - int n + 1..e]"
    using upto_as_map [of "e - int n + 1" n] by simp
  finally show ?thesis .
qed

lemma filter_finite: "map the (filter Number_isFinite vs) = map Finite (finiteValues vs)"
  by (induction vs rule: finiteValues.induct) simp_all

lemma finiteValues_empty: "(finiteValues vs = []) = (\<forall>v \<in> set vs. \<not> Number_isFinite v)"
  by (induction vs rule: finiteValues.induct) simp_all

lemma finiteValues_single:
  assumes "distinct zs" "z \<in> set zs" "f z = Some (Finite r)"
    and "\<forall>z' \<in> set zs. z' \<noteq> z \<longrightarrow> \<not> Number_isFinite (f z')"
  shows "finiteValues (map f zs) = [r]"
  using assms
proof (induction zs)
  case Nil
  then show ?case by simp
next
  case (Cons x zs)
  show ?case
  proof (cases "x = z")
    case True
    with Cons.prems have "\<forall>v \<in> set (map f zs). \<not> Number_isFinite v"
      by auto
    then have "finiteValues (map f zs) = []"
      by (simp only: finiteValues_empty)
    with True Cons.prems(3) show ?thesis
      by simp
  next
    case False
    with Cons.prems have "\<not> Number_isFinite (f x)" and "finiteValues (map f zs) = [r]"
      by (auto intro: Cons.IH)
    then show ?thesis
      by (cases "f x" rule: Number_isFinite.cases) simp_all
  qed
qed

lemma getRollingAverage_doubleMean:
  assumes "parseDate currentDate = Local_Day e"
    and "\<not> (0 \<le> fst (civil_from_days e) \<and> fst (civil_from_days e) \<le> 99)"
  shows "getRollingAverage s currentDate n
           = doubleMean (finiteValues (map (dayAverage s) [e - int n + 1..e]))"
proof -
  have avgs: "map (\<lambda>d. getDailyAverage (getDay s d)) (buildDateRange (parseDate currentDate) n)
                = map (dayAverage s) [e - int n + 1..e]"
    by (simp add: assms(1) buildDateRange_days [OF assms(2)] dayAverage_def comp_def)
  show ?thesis
    unfolding getRollingAverage_def Let_def avgs filter_finite doubleMean_def
    by simp
qed

lemma doubleMean_single: "is_double r \<Longrightarrow> doubleMean [r] = Some (Finite r)"
  by (simp add: doubleMean_def round_double_exact)

lemma foldl_num_add_exact:
  "list_all is_double (partialSums acc rs) \<Longrightarrow>
     foldl num_add (Finite acc) (map Finite rs) = Finite (acc + sum_list rs)"
proof (induction rs arbitrary: acc)
  case Nil
  show ?case by simp
next
  case (Cons r rs)
  from Cons.prems have rest: "list_all is_double (partialSums (acc + r) rs)"
    by simp
  then have "is_double (acc + r)"
    by (cases rs) simp_all
  then have "num_add (Finite acc) (Finite r) = Finite (acc + r)"
    by (simp add: round_double_exact)
  with Cons.IH [OF rest] show ?case
    by (simp add: add.assoc)
qed

lemma doubleMean_exact:
  assumes "rs \<noteq> []" "list_all is_double (partialSums 0 rs)"
    and "is_double (sum_list rs / of_nat (length rs))"
  shows "doubleMean rs = Some (Finite (sum_list rs / of_nat (length rs)))"
  using assms by (simp add: doubleMean_def foldl_num_add_exact round_double_exact)

lemma example_year: "\<not> (0 \<le> fst (civil_from_days 19886) \<and> fst (civil_from_days 19886) \<le> 99)"
  by (simp add: example_civil)

lemma example_overflow:
  "round_double (2 * MAX_VALUE) = PosInfinity"
  using example_rounding(4) by (simp only: mult_2)

lemma example_averages:
  "dayAverage exampleState 19880 = None"
  "dayAverage exampleState 19881 = None"
  "dayAverage exampleState 19882 = None"
  "dayAverage exampleState 19883 = Some (Finite (301 / 2))"
  "dayAverage exampleState 19884 = None"
  "dayAverage exampleState 19885 = None"
  "dayAverage exampleState 19886 = None"
  "dayAverage (exampleState\<lparr> days := [] \<rparr>) 19880 = None"
  "dayAverage (exampleState\<lparr> days := [] \<rparr>) 19881 = None"
  "dayAverage (exampleState\<lparr> days := [] \<rparr>) 19882 = None"
  "dayAverage (exampleState\<lparr> days := [] \<rparr>) 19883 = None"
  "dayAverage (exampleState\<lparr> days := [] \<rparr>) 19884 = None"
  "dayAverage (exampleState\<lparr> days := [] \<rparr>) 19885 = None"
  "dayAverage (exampleState\<lparr> days := [] \<rparr>) 19886 = None"
  "dayAverage overflowState 19880 = None"
  "dayAverage overflowState 19881 = None"
  "dayAverage overflowState 19882 = None"
  "dayAverage overflowState 19883 = Some PosInfinity"
  "dayAverage overflowState 19884 = None"
  "dayAverage overflowState 19885 = None"
  "dayAverage overflowState 19886 = None"
  "dayAverage thirdsState 19880 = None"
  "dayAverage thirdsState 19881 = None"
  "dayAverage thirdsState 19882 = None"
  "dayAverage thirdsState 19883 = Some (Finite 100)"
  "dayAverage thirdsState 19884 = Some (Finite 101)"
  "dayAverage thirdsState 19885 = Some (Finite 101)"
  "dayAverage thirdsState 19886 = None"
  by (simp_all add: dayAverage_def example_format getDay_def exampleState_def
        overflowState_def thirdsState_def emptyObject_def createEmptyDay_def or_default_def
        Let_def getDailyAverage_def example_overflow)

text \<open>
  C5. For a current date that parses to day \<open>e\<close> (from 1970 on), the window
  \<open>[e - windowSize + 1..e]\<close> holds exactly \<open>windowSize\<close> calendar days, the last one \<open>e\<close>.
  \<open>getRollingAverage\<close> keeps the daily averages of these days that are finite (a day
  with none, or with an infinite one, is skipped) and returns their sum, added one by
  one from 0, divided by their count, in double arithmetic; this is the mean whenever
  every partial sum and the mean are doubles. It is none exactly when no day of the
  window has a finite daily average, and it is the single value when exactly one day
  has a finite one (the value being a double, as the daily average of stored doubles is).
\<close>

theorem getRollingAverage_double_window:
  assumes "parseDate currentDate = Local_Day e" and "0 \<le> e"
  shows "length [e - int windowSize + 1..e] = windowSize
   \<and> getRollingAverage s currentDate windowSize
       = doubleMean (finiteValues (map (dayAverage s) [e - int windowSize + 1..e]))
   \<and> ((getRollingAverage s currentDate windowSize = None)
       = (\<forall>z \<in> set [e - int windowSize + 1..e]. \<not> Number_isFinite (dayAverage s z)))
   \<and> (z \<in> set [e - int windowSize + 1..e] \<and> dayAverage s z = Some (Finite r) \<and> is_double r
       \<and> (\<forall>z' \<in> set [e - int windowSize + 1..e].
             z' \<noteq> z \<longrightarrow> \<not> Number_isFinite (dayAverage s z'))
       \<longrightarrow> getRollingAverage s currentDate windowSize = Some (Finite r))
   \<and> (finiteValues (map (dayAverage s) [e - int windowSize + 1..e]) = rs \<and> rs \<noteq> []
       \<and> list_all is_double (partialSums 0 rs)
       \<and> is_double (sum_list rs / of_nat (length rs))
       \<longrightarrow> getRollingAverage s currentDate windowSize
             = Some (Finite (sum_list rs / of_nat (length rs))))"
proof -
  let ?days = "[e - int windowSize + 1..e]"
  from \<open>0 \<le> e\<close> have "400 \<le> fst (civil_from_days e)"
    by (simp add: year_from_400)
  then have year: "\<not> (0 \<le> fst (civil_from_days e) \<and> fst (civil_from_days e) \<le> 99)"
    by simp
  note eq = getRollingAverage_doubleMean [OF assms(1) year, of s windowSize]
  have none: "(getRollingAverage s currentDate windowSize = None)
       = (\<forall>z \<in> set ?days. \<not> Number_isFinite (dayAverage s z))"
    by (simp add: eq doubleMean_def finiteValues_empty)
  have single: "getRollingAverage s currentDate windowSize = Some (Finite r)"
    if h: "z \<in> set ?days \<and> dayAverage s z = Some (Finite r) \<and> is_double r
       \<and> (\<forall>z' \<in> set ?days. z' \<noteq> z \<longrightarrow> \<not> Number_isFinite (dayAverage s z'))"
  proof -
    from h have "z \<in> set ?days" "dayAverage s z = Some (Finite r)"
      "\<forall>z' \<in> set ?days. z' \<noteq> z \<longrightarrow> \<not> Number_isFinite (dayAverage s z')"
      by simp_all
    with distinct_upto have "finiteValues (map (dayAverage s) ?days) = [r]"
      by (rule finiteValues_single)
    with h show ?thesis
      by (simp add: eq doubleMean_single)
  qed
  have exact: "getRollingAverage s currentDate windowSize
        = Some (Finite (sum_list rs / of_nat (length rs)))"
    if "finiteValues (map (dayAverage s) ?days) = rs \<and> rs \<noteq> []
       \<and> list_all is_double (partialSums 0 rs)
       \<and> is_double (sum_list rs / of_nat (length rs))"
    using that by (simp add: eq doubleMean_exact)
  have len: "length ?days = windowSize"
    by simp
  from len eq none single exact show ?thesis
    by blast
qed

text \<open>
  A day whose two weights are \<^verbatim>\<open>Number.MAX_VALUE\<close> has the daily average \<^verbatim>\<open>Infinity\<close>, yet
  the rolling average over a window with only that day is none; and for the daily
  averages 100, 101 and 101 the result is \<^verbatim>\<open>100.66666666666667\<close>, which is not their mean.
\<close>

theorem getRollingAverage_skips_infinite_average:
  "parseDate ''2024-06-12'' = Local_Day 19886
   \<and> map (dayAverage overflowState) [19886 - int 7 + 1..19886]
      = [None, None, None, Some PosInfinity, None, None, None]
   \<and> getRollingAverage overflowState ''2024-06-12'' 7 = None
   \<and> map (dayAverage thirdsState) [19886 - int 7 + 1..19886]
      = [None, None, None, Some (Finite 100), Some (Finite 101), Some (Finite 101), None]
   \<and> getRollingAverage thirdsState ''2024-06-12'' 7
      = Some (Finite (7083786913884843 / 70368744177664))
   \<and> (100 + 101 + 101) / 3 \<noteq> (7083786913884843 / 70368744177664 :: rat)"
proof -
  note eq = getRollingAverage_doubleMean [OF example_parse(5) example_year, of _ 7]
  have a: "getRollingAverage overflowState ''2024-06-12'' 7 = None"
    by (simp add: eq example_upto example_averages doubleMean_def)
  have "doubleMean [100, 101, 101] = Some (Finite (7083786913884843 / 70368744177664))"
    by (simp add: doubleMean_def round_double_exact example_doubles example_rounding)
  then have b: "getRollingAverage thirdsState ''2024-06-12'' 7
      = Some (Finite (7083786913884843 / 70368744177664))"
    by (simp add: eq example_upto example_averages)
  from a b show ?thesis
    by (simp add: example_parse example_upto example_averages)
qed

theorem getRollingAverage_double_window_witness:
  "parseDate ''2024-06-12'' = Local_Day 19886
   \<and> dayAverage exampleState 19883 = Some (Finite (301 / 2))
   \<and> is_double (301 / 2)
   \<and> getRollingAverage exampleState ''2024-06-12'' 7 = Some (Finite (301 / 2))
   \<and> getRollingAverage (exampleState\<lparr> days := [] \<rparr>) ''2024-06-12'' 7 = None"
proof -
  have p: "parseDate ''2024-06-12'' = Local_Day 19886"
    by (rule example_parse)
  have w: "[19886 - int 7 + 1..19886] = [19880, 19881, 19882, 19883, 19884, 19885, 19886]"
    by (simp add: example_upto)
  have avg: "dayAverage exampleState 19883 = Some (Finite (301 / 2))"
    "\<forall>z' \<in> set [19886 - int 7 + 1..19886].
        z' \<noteq> 19883 \<longrightarrow> \<not> Number_isFinite (dayAverage exampleState z')"
    "\<forall>z \<in> set [19886 - int 7 + 1..19886].
        \<not> Number_isFinite (dayAverage (exampleState\<lparr> days := [] \<rparr>) z)"
    "finiteValues (map (dayAverage exampleState) [19886 - int 7 + 1..19886]) = [301 / 2]"
    by (simp_all add: w example_averages)
  have dbl: "is_double (301 / 2)" "list_all is_double (partialSums 0 [301 / 2])"
    "is_double (sum_list [301 / 2] / of_nat (length [301 / 2 :: rat]))"
    using example_doubles by (simp_all add: is_double_0)
  from avg dbl
    getRollingAverage_double_window [OF p, of 7 exampleState 19883 "301 / 2" "[301 / 2]"]
    getRollingAverage_double_window [OF p, of 7 "exampleState\<lparr> days := [] \<rparr>" 19883 0 "[]"]
  show ?thesis
    by (simp add: p w example_averages doubleMean_def round_double_exact)
qed

subsection \<open>Completeness of a day\<close>

text \<open>
  C6. For a day with \<^verbatim>\<open>dietException = 'yes'\<close>, \<open>isDayComplete\<close> is decided by the weights
  (each finite or marked missed), the lifting answer on a planned lifting day and the
  fast answer on a planned fast day; the five diet answers and the two pass answers can
  be replaced by anything without changing it.
\<close>

theorem isDayComplete_dietException_yes:
  "dietException day = Some yes \<longrightarrow>
     isDayComplete s day d =
       ((Number_isFinite (weightMorning day) \<or> weightMorningMissed day)
        \<and> (Number_isFinite (weightNight day) \<or> weightNightMissed day)
        \<and> (isLiftingDay s d \<longrightarrow> weightLiftingDone day \<noteq> None)
        \<and> (isFastDay s d \<longrightarrow> waterFastDone day \<noteq> None))
     \<and> isDayComplete s (day\<lparr> diet := rules, dessertPass := dp, mealPass := mp \<rparr>) d
         = isDayComplete s day d"
  by (auto simp: isDayComplete_def Let_def)

theorem isDayComplete_dietException_yes_witness:
  "dietException ((createEmptyDay ''2024-06-10'')\<lparr> dietException := Some yes,
       weightMorning := Some (Finite (301 / 2)), weightNightMissed := True \<rparr>) = Some yes
   \<and> isLiftingDay exampleState ''2024-06-10''
   \<and> \<not> isFastDay exampleState ''2024-06-10''
   \<and> \<not> isDayComplete exampleState ((createEmptyDay ''2024-06-10'')\<lparr> dietException := Some yes,
       weightMorning := Some (Finite (301 / 2)), weightNightMissed := True \<rparr>) ''2024-06-10''
   \<and> isDayComplete exampleState ((createEmptyDay ''2024-06-10'')\<lparr> dietException := Some yes,
       weightMorning := Some (Finite (301 / 2)), weightNightMissed := True,
       weightLiftingDone := Some no \<rparr>) ''2024-06-10''"
proof -
  have lift: "isLiftingDay exampleState ''2024-06-10''"
    by (simp add: isLiftingDay_def example_weeks exampleState_def)
  have fast: "\<not> isFastDay exampleState ''2024-06-10''"
    by (simp add: isFastDay_def example_months exampleState_def)
  from lift fast
    isDayComplete_dietException_yes [of "(createEmptyDay ''2024-06-10'')\<lparr> dietException := Some yes,
       weightMorning := Some (Finite (301 / 2)), weightNightMissed := True \<rparr>"
       exampleState "''2024-06-10''"]
    isDayComplete_dietException_yes [of "(createEmptyDay ''2024-06-10'')\<lparr> dietException := Some yes,
       weightMorning := Some (Finite (301 / 2)), weightNightMissed := True,
       weightLiftingDone := Some no \<rparr>"
       exampleState "''2024-06-10''"]
  show ?thesis
    by (simp add: createEmptyDay_def)
qed

subsection \<open>Pass conflicts\<close>

lemma passScan_None:
  "(passScan s d key wk ks = None) =
     (\<forall>k \<in> set ks. k = d \<or> getWeekKey (parseDate k) \<noteq> wk \<or> \<not> passUsed s key k)"
  by (induction ks) auto

lemma passScan_Some:
  "passScan s d key wk ks = Some r \<Longrightarrow>
     r \<in> set ks \<and> r \<noteq> d \<and> getWeekKey (parseDate r) = wk \<and> passUsed s key r"
  by (induction ks) (auto split: if_splits)

text \<open>
  C7. If a recorded date other than the query date has the pass at \<^verbatim>\<open>'yes'\<close> in the query
  date's week, and it is the only such recorded date, \<open>getPassConflict\<close> returns it. Queried
  from a date that is the only one of its week with the pass at \<^verbatim>\<open>'yes'\<close>, it returns
  none. Every result is a recorded date of the query date's week, other than the query
  date, with the pass at \<^verbatim>\<open>'yes'\<close>; so recorded dates of other weeks never give a result.
  Two dates are of the same week when their week keys are equal, which for dates from
  1970 on is the same week from Sunday to Saturday.
\<close>

theorem getPassConflict_single_use:
  "(other \<in> set (map fst (days s)) \<and> passUsed s key other \<and> sameWeek other q \<and> other \<noteq> q
      \<and> (\<forall>k \<in> set (map fst (days s)).
            k \<noteq> q \<and> sameWeek k q \<and> passUsed s key k \<longrightarrow> k = other)
      \<longrightarrow> getPassConflict s q key = Some other)
   \<and> ((\<forall>k \<in> set (map fst (days s)).
            sameWeek k other \<and> passUsed s key k \<longrightarrow> k = other)
      \<longrightarrow> getPassConflict s other key = None)
   \<and> (getPassConflict s q key = Some r
      \<longrightarrow> r \<in> set (map fst (days s)) \<and> r \<noteq> q \<and> sameWeek r q \<and> passUsed s key r)
   \<and> ((\<forall>k \<in> set (map fst (days s)). \<not> sameWeek k q) \<longrightarrow> getPassConflict s q key = None)
   \<and> (parseDate a = Local_Day x \<and> parseDate b = Local_Day y \<and> 0 \<le> x \<and> 0 \<le> y
      \<longrightarrow> sameWeek a b = ((x + 4) div 7 = (y + 4) div 7))"
proof (intro conjI impI)
  assume h: "other \<in> set (map fst (days s)) \<and> passUsed s key other \<and> sameWeek other q
      \<and> other \<noteq> q
      \<and> (\<forall>k \<in> set (map fst (days s)).
            k \<noteq> q \<and> sameWeek k q \<and> passUsed s key k \<longrightarrow> k = other)"
  then have "getPassConflict s q key \<noteq> None"
    unfolding getPassConflict_def Let_def passScan_None sameWeek_def by blast
  then obtain r where r: "getPassConflict s q key = Some r"
    by auto
  then have "r \<in> set (map fst (days s)) \<and> r \<noteq> q \<and> sameWeek r q \<and> passUsed s key r"
    unfolding getPassConflict_def Let_def sameWeek_def by (rule passScan_Some)
  with h have "r = other"
    by blast
  with r show "getPassConflict s q key = Some other"
    by simp
next
  assume "\<forall>k \<in> set (map fst (days s)). sameWeek k other \<and> passUsed s key k \<longrightarrow> k = other"
  then show "getPassConflict s other key = None"
    unfolding getPassConflict_def Let_def passScan_None sameWeek_def by blast
next
  assume "getPassConflict s q key = Some r"
  then have *: "r \<in> set (map fst (days s)) \<and> r \<noteq> q \<and> sameWeek r q \<and> passUsed s key r"
    unfolding getPassConflict_def Let_def sameWeek_def by (rule passScan_Some)
  from * show "r \<in> set (map fst (days s))" by simp
  from * show "r \<noteq> q" by simp
  from * show "sameWeek r q" by simp
  from * show "passUsed s key r" by simp
next
  assume "\<forall>k \<in> set (map fst (days s)). \<not> sameWeek k q"
  then show "getPassConflict s q key = None"
    unfolding getPassConflict_def Let_def passScan_None sameWeek_def by blast
next
  assume "parseDate a = Local_Day x \<and> parseDate b = Local_Day y \<and> 0 \<le> x \<and> 0 \<le> y"
  then show "sameWeek a b = ((x + 4) div 7 = (y + 4) div 7)"
    by (simp add: sameWeek_calendar)
qed

theorem getPassConflict_single_use_witness:
  "getPassConflict exampleState ''2024-06-09'' dessertPass_key = Some ''2024-06-11''
   \<and> getPassConflict exampleState ''2024-06-13'' dessertPass_key = Some ''2024-06-11''
   \<and> getPassConflict exampleState ''2024-06-11'' dessertPass_key = None
   \<and> passUsed exampleState dessertPass_key ''2024-06-11''
   \<and> passUsed exampleState dessertPass_key ''2024-06-16''
   \<and> sameWeek ''2024-06-11'' ''2024-06-09''
   \<and> sameWeek ''2024-06-11'' ''2024-06-13''
   \<and> \<not> sameWeek ''2024-06-16'' ''2024-06-11''"
proof -
  have used:
    "\<not> passUsed exampleState dessertPass_key ''2024-06-09''"
    "passUsed exampleState dessertPass_key ''2024-06-11''"
    "passUsed exampleState dessertPass_key ''2024-06-16''"
    by (simp_all add: passUsed_def exampleState_def emptyObject_def)
  have keys: "map fst (days exampleState) = [''2024-06-09'', ''2024-06-11'', ''2024-06-16'']"
    by (simp add: exampleState_def)
  have weeks:
    "sameWeek ''2024-06-11'' ''2024-06-09''" "sameWeek ''2024-06-11'' ''2024-06-13''"
    "\<not> sameWeek ''2024-06-16'' ''2024-06-09''" "\<not> sameWeek ''2024-06-16'' ''2024-06-13''"
    "\<not> sameWeek ''2024-06-16'' ''2024-06-11''"
    by (simp_all add: sameWeek_def example_weeks)
  have a: "getPassConflict exampleState ''2024-06-09'' dessertPass_key = Some ''2024-06-11''"
    using getPassConflict_single_use [of "''2024-06-11''" exampleState dessertPass_key
        "''2024-06-09''" "''2024-06-11''"] used weeks
    by (simp add: keys)
  have b: "getPassConflict exampleState ''2024-06-13'' dessertPass_key = Some ''2024-06-11''"
    using getPassConflict_single_use [of "''2024-06-11''" exampleState dessertPass_key
        "''2024-06-13''" "''2024-06-11''"] used weeks
    by (simp add: keys)
  have c: "getPassConflict exampleState ''2024-06-11'' dessertPass_key = None"
    using getPassConflict_single_use [of "''2024-06-11''" exampleState dessertPass_key
        "''2024-06-11''" "''2024-06-11''"] used weeks
    by (simp add: keys)
  from a b c used weeks show ?thesis
    by simp
qed

subsection \<open>Plans and confirmation\<close>

text \<open>
  C8. \<open>updateWeekPlan\<close> stores the date list and leaves the week unconfirmed, whatever
  was stored before (so also when the list is the stored one); \<open>updateFastPlan\<close> does the
  same for a month. Among the mutations, a week or month turns confirmed only by its
  confirm operation and turns unconfirmed only by a plan update of that key.
\<close>

theorem plan_update_unconfirms:
  "weekPlans (updateWeekPlan k ds s) k = Some \<lparr> dates = ds \<rparr>
   \<and> confirmedWeeks (updateWeekPlan k ds s) k = Some False
   \<and> \<not> isWeekPlanConfirmed (updateWeekPlan k ds s) k
   \<and> fastPlans (updateFastPlan k ds s) k = Some \<lparr> dates = ds \<rparr>
   \<and> confirmedMonths (updateFastPlan k ds s) k = Some False
   \<and> \<not> isMonthPlanConfirmed (updateFastPlan k ds s) k
   \<and> isWeekPlanConfirmed (confirmWeekPlan k s) k
   \<and> isMonthPlanConfirmed (confirmMonthPlan k s) k
   \<and> (\<not> isWeekPlanConfirmed s k \<and> isWeekPlanConfirmed (perform m s) k
        \<longrightarrow> m = ConfirmWeekPlan k)
   \<and> (\<not> isMonthPlanConfirmed s k \<and> isMonthPlanConfirmed (perform m s) k
        \<longrightarrow> m = ConfirmMonthPlan k)
   \<and> (isWeekPlanConfirmed s k \<and> \<not> isWeekPlanConfirmed (perform m s) k
        \<longrightarrow> (\<exists>ds'. m = UpdateWeekPlan k ds'))
   \<and> (isMonthPlanConfirmed s k \<and> \<not> isMonthPlanConfirmed (perform m s) k
        \<longrightarrow> (\<exists>ds'. m = UpdateFastPlan k ds'))"
  by (cases m)
     (auto simp: updateWeekPlan_def updateFastPlan_def confirmWeekPlan_def
        confirmMonthPlan_def isWeekPlanConfirmed_def isMonthPlanConfirmed_def truthy_def
        or_default_def setDietValue_def setDayValue_def setWeightValue_def
        toggleWeightMissed_def updateDay_def Let_def split: if_splits)

theorem plan_update_unconfirms_witness:
  "weekPlans exampleState ''2024-06-09''
     = Some \<lparr> dates = [''2024-06-10'', ''2024-06-12'', ''2024-06-14''] \<rparr>
   \<and> isWeekPlanConfirmed exampleState ''2024-06-09''
   \<and> \<not> isWeekPlanConfirmed
        (perform (UpdateWeekPlan ''2024-06-09'' [''2024-06-10'', ''2024-06-12'', ''2024-06-14''])
           exampleState) ''2024-06-09''
   \<and> isMonthPlanConfirmed exampleState ''2024-06''
   \<and> \<not> isMonthPlanConfirmed
        (perform (UpdateFastPlan ''2024-06'' [''2024-06-20'', ''2024-06-21'', ''2024-06-22''])
           exampleState) ''2024-06''
   \<and> \<not> isWeekPlanConfirmed exampleState ''2024-06-16''
   \<and> isWeekPlanConfirmed (perform (ConfirmWeekPlan ''2024-06-16'') exampleState) ''2024-06-16''
   \<and> \<not> isMonthPlanConfirmed exampleState ''2024-07''
   \<and> isMonthPlanConfirmed (perform (ConfirmMonthPlan ''2024-07'') exampleState) ''2024-07''"
proof -
  have before:
    "weekPlans exampleState ''2024-06-09''
       = Some \<lparr> dates = [''2024-06-10'', ''2024-06-12'', ''2024-06-14''] \<rparr>"
    "isWeekPlanConfirmed exampleState ''2024-06-09''"
    "isMonthPlanConfirmed exampleState ''2024-06''"
    "\<not> isWeekPlanConfirmed exampleState ''2024-06-16''"
    "\<not> isMonthPlanConfirmed exampleState ''2024-07''"
    by (simp_all add: exampleState_def isWeekPlanConfirmed_def isMonthPlanConfirmed_def
          truthy_def or_default_def)
  have confirms:
    "isWeekPlanConfirmed (perform (ConfirmWeekPlan ''2024-06-16'') exampleState) ''2024-06-16''"
    "isMonthPlanConfirmed (perform (ConfirmMonthPlan ''2024-07'') exampleState) ''2024-07''"
    by (simp_all add: confirmWeekPlan_def confirmMonthPlan_def isWeekPlanConfirmed_def
          isMonthPlanConfirmed_def truthy_def or_default_def)
  from before confirms
    plan_update_unconfirms [of "''2024-06-09''" "[''2024-06-10'', ''2024-06-12'', ''2024-06-14'']"
      exampleState "ConfirmWeekPlan ''2024-06-09''"]
    plan_update_unconfirms [of "''2024-06''" "[''2024-06-20'', ''2024-06-21'', ''2024-06-22'']"
      exampleState "ConfirmMonthPlan ''2024-06''"]
    plan_update_unconfirms [of "''2024-06-16''" "[]" exampleState "ConfirmWeekPlan ''2024-06-16''"]
    plan_update_unconfirms [of "''2024-07''" "[]" exampleState "ConfirmMonthPlan ''2024-07''"]
  show ?thesis
    by simp
qed

subsection \<open>Weights and missed flags\<close>

lemma list_all_update:
  "list_all P al \<Longrightarrow> P (k, v) \<Longrightarrow> list_all P (AList.update k v al)"
  by (induction al) (auto)

lemma map_of_stored:
  "list_all (\<lambda>entry. Q (snd entry)) al \<Longrightarrow> map_of al k = Some r \<Longrightarrow> Q r"
  by (induction al) (auto split: if_splits)

lemma updateDay_exclusive:
  assumes inv: "allExclusive s"
    and upd: "\<And>day. storedExclusive day \<Longrightarrow> storedExclusive (f day)"
  shows "allExclusive (updateDay d f s)"
proof -
  have cur: "storedExclusive (or_default (map_of (days s) d) (asStored (createEmptyDay d)))"
  proof (cases "map_of (days s) d")
    case None
    then show ?thesis
      by (simp add: or_default_def storedExclusive_def asStored_def createEmptyDay_def)
  next
    case (Some r)
    with inv have "storedExclusive r"
      unfolding allExclusive_def by (rule map_of_stored)
    with Some show ?thesis by (simp add: or_default_def)
  qed
  from inv upd[OF cur] show ?thesis
    unfolding allExclusive_def updateDay_def Let_def
    by (simp add: list_all_update)
qed

lemma setWeight_exclusive: "storedExclusive day \<Longrightarrow> storedExclusive (setWeight key v day)"
  by (cases key) (auto simp: storedExclusive_def truthy_def or_default_def)

lemma toggleMissed_exclusive: "storedExclusive day \<Longrightarrow> storedExclusive (toggleMissed key day)"
  by (cases key) (auto simp: storedExclusive_def truthy_def or_default_def Let_def)

lemma assignYesNo_exclusive:
  "storedExclusive day \<Longrightarrow> storedExclusive (assignDayValue (yesNoValue f v) day)"
  by (cases f) (auto simp: storedExclusive_def)

lemma perform_exclusive: "allExclusive s \<Longrightarrow> allExclusive (perform m s)"
proof (cases m)
  case (SetDietValue d key v)
  assume "allExclusive s"
  then show ?thesis
    unfolding SetDietValue perform.simps setDietValue_def
    by (rule updateDay_exclusive) (simp add: storedExclusive_def)
next
  case (SetDayValue d f v)
  assume "allExclusive s"
  then show ?thesis
    unfolding SetDayValue perform.simps setDayValue_def
    by (rule updateDay_exclusive) (rule assignYesNo_exclusive)
next
  case (SetWeightValue d key v)
  assume "allExclusive s"
  then show ?thesis
    unfolding SetWeightValue perform.simps setWeightValue_def
    by (rule updateDay_exclusive) (rule setWeight_exclusive)
next
  case (ToggleWeightMissed d key)
  assume "allExclusive s"
  then show ?thesis
    unfolding ToggleWeightMissed perform.simps toggleWeightMissed_def
    by (rule updateDay_exclusive) (rule toggleMissed_exclusive)
qed (simp_all add: allExclusive_def updateWeekPlan_def updateFastPlan_def
       confirmWeekPlan_def confirmMonthPlan_def)

lemma map_of_updateDay:
  "map_of (days (updateDay d f s)) k =
     (if k = d then Some (f (or_default (map_of (days s) d) (asStored (createEmptyDay d))))
      else map_of (days s) k)"
  by (simp add: updateDay_def Let_def update_conv')

lemma getDay_exclusive: "allExclusive s \<Longrightarrow> weightExclusive (getDay s d)"
proof (cases "map_of (days s) d")
  case None
  then show ?thesis by (simp add: getDay_def weightExclusive_def createEmptyDay_def)
next
  case (Some r)
  assume "allExclusive s"
  then have "storedExclusive r"
    unfolding allExclusive_def using Some by (rule map_of_stored)
  with Some show ?thesis
    by (auto simp: getDay_def weightExclusive_def storedExclusive_def Let_def truthy_def
          createEmptyDay_def or_default_def split: option.splits)
qed

lemma setWeightValue_clears:
  "v \<noteq> None \<Longrightarrow> \<not> missedOf key (getDay (setWeightValue d key v s) d)
     \<and> weightOf key (getDay (setWeightValue d key v s) d) = v"
  by (cases key)
     (auto simp: setWeightValue_def map_of_updateDay getDay_def Let_def or_default_def
        createEmptyDay_def)

lemma toggle_on_clears:
  "\<not> missedOf key (getDay s d) \<Longrightarrow>
     missedOf key (getDay (toggleWeightMissed d key s) d)
     \<and> weightOf key (getDay (toggleWeightMissed d key s) d) = None"
  by (cases key; cases "map_of (days s) d")
     (auto simp: toggleWeightMissed_def map_of_updateDay getDay_def Let_def or_default_def
        createEmptyDay_def asStored_def truthy_def split: option.splits)

text \<open>
  C9. A weight and its missed flag are never both set: this holds of a fresh day, every
  mutation keeps it for all stored days, and then \<open>getDay\<close> shows it. \<open>setWeightValue\<close>
  with a defined value leaves the flag false, and \<open>toggleWeightMissed\<close> turning the flag
  on leaves the weight \<^verbatim>\<open>undefined\<close>.
\<close>

theorem weight_missed_exclusive:
  "weightExclusive (createEmptyDay d)
   \<and> (allExclusive s \<longrightarrow> allExclusive (perform m s))
   \<and> (allExclusive s \<longrightarrow> weightExclusive (getDay s d))
   \<and> (v \<noteq> None \<longrightarrow>
        \<not> missedOf key (getDay (setWeightValue d key v s) d)
        \<and> weightOf key (getDay (setWeightValue d key v s) d) = v)
   \<and> (\<not> missedOf key (getDay s d) \<longrightarrow>
        missedOf key (getDay (toggleWeightMissed d key s) d)
        \<and> weightOf key (getDay (toggleWeightMissed d key s) d) = None)"
  using perform_exclusive getDay_exclusive setWeightValue_clears toggle_on_clears
  by (simp add: weightExclusive_def createEmptyDay_def)

theorem weight_missed_exclusive_witness:
  "allExclusive exampleState
   \<and> allExclusive (perform (SetWeightValue ''2024-06-09'' weightNight_key (Some (Finite 150)))
        exampleState)
   \<and> missedOf weightNight_key (getDay exampleState ''2024-06-09'')
   \<and> \<not> missedOf weightNight_key
        (getDay (setWeightValue ''2024-06-09'' weightNight_key (Some (Finite 150)) exampleState)
           ''2024-06-09'')
   \<and> weightOf weightNight_key
        (getDay (setWeightValue ''2024-06-09'' weightNight_key (Some (Finite 150)) exampleState)
           ''2024-06-09'') = Some (Finite 150)
   \<and> weightOf weightMorning_key (getDay exampleState ''2024-06-09'') = Some (Finite (301 / 2))
   \<and> \<not> missedOf weightMorning_key (getDay exampleState ''2024-06-09'')
   \<and> missedOf weightMorning_key
        (getDay (toggleWeightMissed ''2024-06-09'' weightMorning_key exampleState) ''2024-06-09'')
   \<and> weightOf weightMorning_key
        (getDay (toggleWeightMissed ''2024-06-09'' weightMorning_key exampleState) ''2024-06-09'')
      = None"
proof -
  have inv: "allExclusive exampleState"
    by (simp add: allExclusive_def storedExclusive_def exampleState_def emptyObject_def
          truthy_def or_default_def)
  have before:
    "missedOf weightNight_key (getDay exampleState ''2024-06-09'')"
    "weightOf weightMorning_key (getDay exampleState ''2024-06-09'') = Some (Finite (301 / 2))"
    "\<not> missedOf weightMorning_key (getDay exampleState ''2024-06-09'')"
    by (simp_all add: getDay_def exampleState_def emptyObject_def createEmptyDay_def
          or_default_def Let_def)
  from inv before
    weight_missed_exclusive [of "''2024-06-09''" exampleState
      "SetWeightValue ''2024-06-09'' weightNight_key (Some (Finite 150))"
      "Some (Finite 150)" weightNight_key]
    weight_missed_exclusive [of "''2024-06-09''" exampleState
      "SetWeightValue ''2024-06-09'' weightNight_key (Some (Finite 150))"
      "Some (Finite 150)" weightMorning_key]
  show ?thesis
    by simp
qed

subsection \<open>Reading a day\<close>

text \<open>
  C10. \<open>getDay\<close> of a date with no stored object is the unanswered default day; of a
  stored object it is, field by field and diet key by diet key, the stored property when
  there is one and the default otherwise. The result is a whole \<^verbatim>\<open>DayRecord\<close>: all five
  diet keys have an answer or \<^verbatim>\<open>null\<close>.
\<close>

theorem getDay_defaults_and_merge:
  "(map_of (days s) d = None \<longrightarrow>
      getDay s d =
        \<lparr> date = d, diet = (\<lambda>key. None), dietException = None, dessertPass = None,
          mealPass = None, weightMorning = None, weightNight = None,
          weightMorningMissed = False, weightNightMissed = False,
          weightLiftingDone = None, waterFastDone = None \<rparr>)
   \<and> (map_of (days s) d = Some stored \<longrightarrow>
        date (getDay s d) = (case p_date stored of None \<Rightarrow> d | Some v \<Rightarrow> v)
      \<and> diet (getDay s d) key =
          (case p_diet stored of None \<Rightarrow> None
           | Some rules \<Rightarrow> (case rules key of None \<Rightarrow> None | Some v \<Rightarrow> v))
      \<and> dietException (getDay s d) =
          (case p_dietException stored of None \<Rightarrow> None | Some v \<Rightarrow> v)
      \<and> dessertPass (getDay s d) = (case p_dessertPass stored of None \<Rightarrow> None | Some v \<Rightarrow> v)
      \<and> mealPass (getDay s d) = (case p_mealPass stored of None \<Rightarrow> None | Some v \<Rightarrow> v)
      \<and> weightMorning (getDay s d) = p_weightMorning stored
      \<and> weightNight (getDay s d) = p_weightNight stored
      \<and> weightMorningMissed (getDay s d) =
          (case p_weightMorningMissed stored of None \<Rightarrow> False | Some v \<Rightarrow> v)
      \<and> weightNightMissed (getDay s d) =
          (case p_weightNightMissed stored of None \<Rightarrow> False | Some v \<Rightarrow> v)
      \<and> weightLiftingDone (getDay s d) =
          (case p_weightLiftingDone stored of None \<Rightarrow> None | Some v \<Rightarrow> v)
      \<and> waterFastDone (getDay s d) =
          (case p_waterFastDone stored of None \<Rightarrow> None | Some v \<Rightarrow> v))"
  by (auto simp: getDay_def createEmptyDay_def emptyDiet_def or_default_def Let_def
        split: option.splits)

theorem getDay_defaults_and_merge_witness:
  "map_of (days exampleState) ''2024-06-12'' = None
   \<and> getDay exampleState ''2024-06-12'' = createEmptyDay ''2024-06-12''
   \<and> map_of (days exampleState) ''2024-06-11''
      = Some (emptyObject\<lparr> p_diet := Some [nonKetoFruits \<mapsto> Some no],
                p_dessertPass := Some (Some yes) \<rparr>)
   \<and> date (getDay exampleState ''2024-06-11'') = ''2024-06-11''
   \<and> diet (getDay exampleState ''2024-06-11'') nonKetoFruits = Some no
   \<and> diet (getDay exampleState ''2024-06-11'') refinedCarbs = None
   \<and> dessertPass (getDay exampleState ''2024-06-11'') = Some yes
   \<and> mealPass (getDay exampleState ''2024-06-11'') = None
   \<and> weightMorning (getDay exampleState ''2024-06-11'') = None
   \<and> weightMorningMissed (getDay exampleState ''2024-06-11'') = False"
proof -
  have absent: "map_of (days exampleState) ''2024-06-12'' = None"
    by (simp add: exampleState_def)
  have present: "map_of (days exampleState) ''2024-06-11''
      = Some (emptyObject\<lparr> p_diet := Some [nonKetoFruits \<mapsto> Some no],
                p_dessertPass := Some (Some yes) \<rparr>)"
    by (simp add: exampleState_def)
  from absent present
    getDay_defaults_and_merge [of exampleState "''2024-06-12''" emptyObject nonKetoFruits]
    getDay_defaults_and_merge [of exampleState "''2024-06-11''"
      "emptyObject\<lparr> p_diet := Some [nonKetoFruits \<mapsto> Some no],
                p_dessertPass := Some (Some yes) \<rparr>" nonKetoFruits]
    getDay_defaults_and_merge [of exampleState "''2024-06-11''"
      "emptyObject\<lparr> p_diet := Some [nonKetoFruits \<mapsto> Some no],
                p_dessertPass := Some (Some yes) \<rparr>" refinedCarbs]
  show ?thesis
    by (simp add: emptyObject_def createEmptyDay_def emptyDiet_def)
qed

end
